theory Spec2Isabelle
  imports Main "HOL-Library.AList"
begin

section \<open>Values shared by the two source files\<close>

text \<open>
  A thrown JavaScript \<^verbatim>\<open>Error\<close> is a value carrying its message; a function that may
  throw returns \<open>error + 'a\<close>, with \<open>Inl\<close> for the throw.
\<close>

datatype error = Error string

text \<open>A \<^verbatim>\<open>Record<string, string>\<close>: keys in insertion order, one entry per key.\<close>

type_synonym labels = "(string \<times> string) list"

text \<open>
  Template literals print numbers in decimal. The numbers printed here are ports, layer
  counts and list lengths, so they are integers; \<^verbatim>\<open>NaN\<close> is the number that
  \<^verbatim>\<open>parseInt\<close> gives for a string without digits.
\<close>

definition digit_char :: "nat \<Rightarrow> char" where
  "digit_char d = ''0123456789'' ! (d mod 10)"

fun string_of_nat :: "nat \<Rightarrow> string" where
  "string_of_nat n =
     (if n < 10 then [digit_char n] else string_of_nat (n div 10) @ [digit_char (n mod 10)])"

declare string_of_nat.simps [simp del]

definition string_of_int :: "int \<Rightarrow> string" where
  "string_of_int i = (if i < 0 then CHR ''-'' # string_of_nat (nat (- i)) else string_of_nat (nat i))"

section \<open>The llama.cpp inference provider (LlamaCppPython.ts)\<close>

definition LLAMA_CPP_CPU :: string where
  "LLAMA_CPP_CPU = ''ghcr.io/containers/llamacpp_python:latest''"

definition LLAMA_CPP_CUDA :: string where
  "LLAMA_CPP_CUDA = ''ghcr.io/containers/llamacpp_python_cuda:latest''"

definition SECOND :: nat where
  "SECOND = 1000000000"

record LocalModelInfo =
  lm_file :: string
  lm_path :: string

record ModelInfo =
  model_id :: string
  model_file :: "LocalModelInfo option"

record IGPUInfo =
  gpu_model :: string

record InferenceServerConfig =
  port :: int
  providerId :: "string option"
  image :: "string option"
  config_labels :: labels
  modelsInfo :: "ModelInfo list"
  gpuLayers :: "int option"

text \<open>The engine's answer to an image pull: the image's id and the engine holding it.\<close>

record EngineImageInfo =
  image_Id :: string
  image_engineId :: string

record Mount =
  Target :: string
  Source :: string
  Type :: string
  Mode :: "string option"

record Device =
  PathOnHost :: string
  PathInContainer :: string
  CgroupPermissions :: string

record DeviceRequest =
  Capabilities :: "string list list"
  Count :: int

record PortBinding =
  HostPort :: string

record HostConfig =
  AutoRemove :: "bool option"
  Devices :: "Device list option"
  Mounts :: "Mount list option"
  DeviceRequests :: "DeviceRequest list option"
  SecurityOpt :: "string list option"
  PortBindings :: "(string \<times> PortBinding list) list option"

record HealthConfig =
  Test :: "string list"
  Interval :: nat
  Retries :: nat
  Timeout :: "nat option"

text \<open>
  The options of one \<^verbatim>\<open>createContainer\<close> call. A field that a call site leaves out
  is \<open>None\<close>, as is one it sets to \<^verbatim>\<open>undefined\<close>.
\<close>

record ContainerCreateOptions =
  Image :: string
  cc_name :: "string option"
  Detach :: bool
  Entrypoint :: "string option"
  User :: "string option"
  ExposedPorts :: "string list option"
  HostConfig :: "HostConfig option"
  HealthCheck :: "HealthConfig option"
  Labels :: "labels option"
  Env :: "string list"
  Cmd :: "string list option"
  cc_start :: "bool option"
  cc_pod :: "string option"

record BetterContainerCreateResult =
  result_id :: string
  result_engineId :: string

text \<open>
  What the provider imports from files that are not part of the sources read here, and
  the outcome of each call it makes to a collaborator (GPU enumeration, the image pull and
  the container creation of the base class).
\<close>

record ProviderEnv =
  collectGPUs :: "error + IGPUInfo list"
  pullImage :: "string option \<Rightarrow> string \<Rightarrow> labels \<Rightarrow> error + EngineImageInfo"
  createContainer :: "string \<Rightarrow> ContainerCreateOptions \<Rightarrow> labels \<Rightarrow> error + BetterContainerCreateResult"
  getModelPropertiesForEnvironment :: "ModelInfo \<Rightarrow> string list"
  DISABLE_SELINUX_LABEL_SECURITY_OPTION :: string
  LABEL_INFERENCE_SERVER :: string
  JSON_stringify :: "string list \<Rightarrow> string"

definition wsl_mount :: Mount where
  "wsl_mount = \<lparr>Target = ''/usr/lib/wsl'', Source = ''/usr/lib/wsl'', Type = ''bind'', Mode = None\<rparr>"

definition gpu_device_request :: DeviceRequest where
  "gpu_device_request = \<lparr>Capabilities = [[''gpu'']], Count = - 1\<rparr>"

definition dxg_device :: Device where
  "dxg_device = \<lparr>PathOnHost = ''/dev/dxg'', PathInContainer = ''/dev/dxg'', CgroupPermissions = ''r''\<rparr>"

definition gpu_cmd :: "string list" where
  "gpu_cmd = [''-c'',
     ''/usr/bin/ln -s /usr/lib/wsl/lib/* /usr/lib64/ && PATH=\"${PATH}:/usr/lib/wsl/lib/\" && chmod 755 ./run.sh && ./run.sh'']"

definition gpuLayers_text :: "int option \<Rightarrow> string" where
  "gpuLayers_text g = (case g of None \<Rightarrow> ''undefined'' | Some n \<Rightarrow> string_of_int n)"

definition getContainerCreateOptions ::
  "ProviderEnv \<Rightarrow> InferenceServerConfig \<Rightarrow> EngineImageInfo \<Rightarrow> IGPUInfo option
     \<Rightarrow> error + ContainerCreateOptions" where
  "getContainerCreateOptions env config imageInfo gpu =
     (if length (modelsInfo config) = 0
        then Inl (Error ''Need at least one model info to start an inference server.'')
      else if length (modelsInfo config) > 1
        then Inl (Error ''Currently the inference server does not support multiple models serving.'')
      else
        let modelInfo = hd (modelsInfo config) in
        (case model_file modelInfo of
           None \<Rightarrow> Inl (Error ''The model info file provided is undefined'')
         | Some file \<Rightarrow>
             let envs0 = [''MODEL_PATH=/models/'' @ lm_file file, ''HOST=0.0.0.0'', ''PORT=8000'']
                           @ getModelPropertiesForEnvironment env modelInfo;
                 mounts0 = [\<lparr>Target = ''/models'', Source = lm_path file, Type = ''bind'', Mode = None\<rparr>];
                 mounts = (if gpu \<noteq> None then mounts0 @ [wsl_mount] else mounts0);
                 deviceRequests = (if gpu \<noteq> None then [gpu_device_request] else []);
                 devices = (if gpu \<noteq> None then [dxg_device] else []);
                 entrypoint = (if gpu \<noteq> None then Some ''/usr/bin/sh'' else None);
                 envs = (if gpu \<noteq> None
                         then envs0 @ [''GPU_LAYERS='' @ gpuLayers_text (gpuLayers config)]
                         else envs0);
                 user = (if gpu \<noteq> None then Some ''0'' else None);
                 cmd = (if gpu \<noteq> None then gpu_cmd else [])
             in Inr \<lparr>Image = image_Id imageInfo,
                     cc_name = None,
                     Detach = True,
                     Entrypoint = entrypoint,
                     User = user,
                     ExposedPorts = Some [string_of_int (port config)],
                     HostConfig = Some \<lparr>AutoRemove = Some False,
                                         Devices = Some devices,
                                         Mounts = Some mounts,
                                         DeviceRequests = Some deviceRequests,
                                         SecurityOpt = Some [DISABLE_SELINUX_LABEL_SECURITY_OPTION env],
                                         PortBindings = Some [(''8000/tcp'', [\<lparr>HostPort = string_of_int (port config)\<rparr>])]\<rparr>,
                     HealthCheck = Some \<lparr>Test = [''CMD-SHELL'', ''curl -sSf localhost:8000/docs > /dev/null''],
                                          Interval = SECOND * 5,
                                          Retries = 4 * 5,
                                          Timeout = None\<rparr>,
                     Labels = Some (AList.update (LABEL_INFERENCE_SERVER env)
                                      (JSON_stringify env (map model_id (modelsInfo config)))
                                      (config_labels config)),
                     Env = envs,
                     Cmd = Some cmd,
                     cc_start = None,
                     cc_pod = None\<rparr>))"

text \<open>
  \<^verbatim>\<open>perform\<close> returns what it returns or throws, together with the calls it made to its
  collaborators and the warnings it printed, in the order they happened.
\<close>

datatype ProviderEvent =
    CollectGPUs
  | Warn string
  | PullImage "string option" string labels
  | CreateContainer string ContainerCreateOptions labels

definition multiple_gpus_warning :: "IGPUInfo list \<Rightarrow> string" where
  "multiple_gpus_warning gpus =
     ''found '' @ string_of_nat (length gpus)
       @ '' gpus: using multiple GPUs is not supported. Using '' @ gpu_model (hd gpus) @ ''.''"

text \<open>The GPU step of \<^verbatim>\<open>perform\<close>: "get the first GPU if requested".\<close>

definition selectGPU ::
  "ProviderEnv \<Rightarrow> InferenceServerConfig \<Rightarrow> ProviderEvent list \<times> (error + IGPUInfo option)" where
  "selectGPU env config =
     (if (case gpuLayers config of None \<Rightarrow> 0 | Some n \<Rightarrow> n) \<noteq> 0 then
        (case collectGPUs env of
           Inl e \<Rightarrow> ([CollectGPUs], Inl e)
         | Inr gpus \<Rightarrow>
             if length gpus = 0 then ([CollectGPUs], Inl (Error ''no gpu was found.''))
             else (CollectGPUs # (if length gpus > 1 then [Warn (multiple_gpus_warning gpus)] else []),
                   Inr (Some (hd gpus))))
      else ([], Inr None))"

text \<open>The image expression of the pull: \<^verbatim>\<open>config.image ?? (gpu ? LLAMA_CPP_CUDA : LLAMA_CPP_CPU)\<close>.\<close>

definition selectImage :: "InferenceServerConfig \<Rightarrow> IGPUInfo option \<Rightarrow> string" where
  "selectImage config gpu =
     (case image config of
        Some i \<Rightarrow> i
      | None \<Rightarrow> if gpu \<noteq> None then LLAMA_CPP_CUDA else LLAMA_CPP_CPU)"

text \<open>The rest of \<^verbatim>\<open>perform\<close>, from the pull on, with the GPU that was selected.\<close>

definition provision ::
  "ProviderEnv \<Rightarrow> InferenceServerConfig \<Rightarrow> IGPUInfo option
     \<Rightarrow> ProviderEvent list \<times> (error + BetterContainerCreateResult)" where
  "provision env config gpu =
     (let pull = PullImage (providerId config) (selectImage config gpu) (config_labels config)
      in case pullImage env (providerId config) (selectImage config gpu) (config_labels config) of
           Inl e \<Rightarrow> ([pull], Inl e)
         | Inr imageInfo \<Rightarrow>
             (case getContainerCreateOptions env config imageInfo gpu of
                Inl e \<Rightarrow> ([pull], Inl e)
              | Inr containerCreateOptions \<Rightarrow>
                  ([pull, CreateContainer (image_engineId imageInfo) containerCreateOptions (config_labels config)],
                   createContainer env (image_engineId imageInfo) containerCreateOptions (config_labels config))))"

text \<open>
  \<^verbatim>\<open>perform\<close>. Its first line throws when \<^verbatim>\<open>enabled()\<close> is false; \<^verbatim>\<open>enabled\<close> of this
  provider is the constant \<^verbatim>\<open>true\<close>, so that throw has no branch here.
\<close>

definition perform ::
  "ProviderEnv \<Rightarrow> InferenceServerConfig \<Rightarrow> ProviderEvent list \<times> (error + BetterContainerCreateResult)" where
  "perform env config =
     (case selectGPU env config of
        (log, Inl e) \<Rightarrow> (log, Inl e)
      | (log, Inr gpu) \<Rightarrow>
          (case provision env config gpu of (log1, r) \<Rightarrow> (log @ log1, r)))"

text \<open>The images that a run asked the engine to pull, in order.\<close>

fun pulled :: "ProviderEvent list \<Rightarrow> string list" where
  "pulled [] = []"
| "pulled (PullImage p img l # es) = img # pulled es"
| "pulled (e # es) = pulled es"

section \<open>The application manager (applicationManager.ts)\<close>

subsection \<open>Waiting for a container to run\<close>

definition TIME_FRAME_MS :: nat where
  "TIME_FRAME_MS = 5000"

definition MAX_ATTEMPTS :: nat where
  "MAX_ATTEMPTS = 60 * (60000 div TIME_FRAME_MS)"

text \<open>
  The loop of \<^verbatim>\<open>waitContainerIsRunning\<close>, from attempt \<open>i\<close> on. \<open>inspect j\<close> is what
  the engine answers to the inspection of attempt \<open>j\<close>: an error when the call is rejected,
  else \<^verbatim>\<open>State.Running\<close>. The second component of the result is the time slept in
  \<^verbatim>\<open>timeout\<close> calls, in milliseconds, on top of the \<open>slept\<close> handed in.
\<close>

function waitLoop :: "(nat \<Rightarrow> error + bool) \<Rightarrow> string \<Rightarrow> nat \<Rightarrow> nat \<Rightarrow> (error + unit) \<times> nat" where
  "waitLoop inspect containerId i slept =
     (if i < MAX_ATTEMPTS then
        (case inspect i of
           Inl e \<Rightarrow> (Inl e, slept)
         | Inr running \<Rightarrow>
             if running then (Inr (), slept)
             else waitLoop inspect containerId (Suc i) (slept + TIME_FRAME_MS))
      else (Inl (Error (''Container '' @ containerId @ '' not started in time'')), slept))"
  by pat_completeness auto
termination
  by (relation "measure (\<lambda>(inspect, containerId, i, slept). MAX_ATTEMPTS - i)") auto

declare waitLoop.simps [simp del]

definition waitContainerIsRunning :: "(nat \<Rightarrow> error + bool) \<Rightarrow> string \<Rightarrow> (error + unit) \<times> nat" where
  "waitContainerIsRunning inspect containerId = waitLoop inspect containerId 0 0"

subsection \<open>Numbers read from and written to strings\<close>

text \<open>
  A JavaScript number that came out of \<^verbatim>\<open>parseInt\<close>: an integer, or \<open>None\<close> for
  \<^verbatim>\<open>NaN\<close>. The strings parsed here are port numbers, far below the size where a
  double stops being exact.
\<close>

type_synonym js_number = "int option"

definition is_space :: "char \<Rightarrow> bool" where
  "is_space c = (c \<in> set [CHR '' '', CHR 0x09, CHR 0x0A, CHR 0x0B, CHR 0x0C, CHR 0x0D])"

definition digit_value :: "char \<Rightarrow> nat option" where
  "digit_value c =
     (if c \<in> set ''0123456789'' then Some (of_char c - 48)
      else if c \<in> set ''abcdef'' then Some (of_char c - 87)
      else if c \<in> set ''ABCDEF'' then Some (of_char c - 55)
      else None)"

definition is_digit :: "nat \<Rightarrow> char \<Rightarrow> bool" where
  "is_digit radix c = (case digit_value c of None \<Rightarrow> False | Some d \<Rightarrow> d < radix)"

definition digits_value :: "nat \<Rightarrow> string \<Rightarrow> nat" where
  "digits_value radix ds = foldl (\<lambda>acc c. acc * radix + the (digit_value c)) 0 ds"

text \<open>
  \<^verbatim>\<open>parseInt(s)\<close> without a radix: leading white space and a sign are skipped, a
  \<^verbatim>\<open>0x\<close> prefix selects base 16, the longest run of digits is read, and a string with no
  digit there gives \<^verbatim>\<open>NaN\<close>. The value is the exact integer: above \<open>2 ^ 53\<close> JavaScript
  rounds it to a double and this definition does not.
\<close>

definition parseInt :: "string \<Rightarrow> js_number" where
  "parseInt s =
     (let s1 = dropWhile is_space s;
          negative = (s1 \<noteq> [] \<and> hd s1 = CHR ''-'');
          s2 = (if s1 \<noteq> [] \<and> (hd s1 = CHR ''-'' \<or> hd s1 = CHR ''+'') then tl s1 else s1);
          hex = (take 2 s2 = ''0x'' \<or> take 2 s2 = ''0X'');
          radix = (if hex then 16 else 10);
          s3 = (if hex then drop 2 s2 else s2);
          ds = takeWhile (is_digit radix) s3
      in if ds = [] then None
         else Some (if negative then - int (digits_value radix ds) else int (digits_value radix ds)))"

definition string_of_number :: "js_number \<Rightarrow> string" where
  "string_of_number n = (case n of None \<Rightarrow> ''NaN'' | Some i \<Rightarrow> string_of_int i)"

text \<open>\<^verbatim>\<open>Array.prototype.join\<close>: an \<^verbatim>\<open>undefined\<close> element is printed as the empty string.\<close>

fun join :: "string \<Rightarrow> string list \<Rightarrow> string" where
  "join sep [] = []"
| "join sep [x] = x"
| "join sep (x # y # ys) = x @ sep @ join sep (y # ys)"

subsection \<open>Pods, images, tasks and application states\<close>

definition LABEL_MODEL_ID :: string where
  "LABEL_MODEL_ID = ''ai-lab-model-id''"

definition LABEL_MODEL_PORTS :: string where
  "LABEL_MODEL_PORTS = ''ai-lab-model-ports''"

definition LABEL_RECIPE_ID :: string where
  "LABEL_RECIPE_ID = ''ai-lab-recipe-id''"

definition LABEL_APP_PORTS :: string where
  "LABEL_APP_PORTS = ''ai-lab-app-ports''"

definition CONFIG_FILENAME :: string where
  "CONFIG_FILENAME = ''ai-lab.yaml''"

record ImageInfo =
  img_id :: string
  modelService :: bool
  ports :: "string list"
  appName :: string

record PodContainerInfo =
  container_Id :: string

text \<open>
  \<^verbatim>\<open>PodInfo\<close> of the engine API, with the fields the manager reads. \<^verbatim>\<open>Labels\<close> is a
  record of strings; \<^verbatim>\<open>Containers\<close> may be missing.
\<close>

record PodInfo =
  pod_engineId :: string
  pod_Id :: string
  pod_Status :: string
  pod_Labels :: labels
  pod_Containers :: "PodContainerInfo list option"

record PodCreatePortOptions =
  container_port :: js_number
  host_port :: js_number
  host_ip :: string
  protocol :: string
  range :: nat

record PodCreateOptions =
  pc_name :: string
  portmappings :: "PodCreatePortOptions list"
  pc_labels :: labels

record Recipe =
  recipe_id :: string
  recipe_name :: string
  repository :: string
  ref :: "string option"
  basedir :: "string option"

record GitCloneInfo =
  git_repository :: string
  git_ref :: "string option"
  targetDirectory :: string

record ContainerConfig =
  container_name :: string
  gpu_env :: "string list"
  arch :: "string list"

text \<open>
  Of the parsed configuration the manager reads \<^verbatim>\<open>aiConfig.application.containers\<close> only,
  so \<open>aiConfig\<close> holds that list.
\<close>

record AIConfigFile =
  aiConfig :: "ContainerConfig list"
  config_path :: string

record AIContainers =
  aiConfigFile :: AIConfigFile
  containers :: "ContainerConfig list"

datatype TaskState = loading | success | error

record Task =
  task_id :: nat
  task_name :: string
  task_state :: TaskState
  task_error :: "string option"
  task_labels :: "labels option"

datatype PodHealth = starting | healthy | degraded | unhealthy | none

record ApplicationState =
  app_recipeId :: string
  app_modelId :: string
  app_pod :: PodInfo
  appPorts :: "int list"
  modelPorts :: "int list"
  health :: PodHealth

text \<open>
  Every call the manager makes that changes something outside it, in the order made.
  Queries (listing pods, inspecting, asking for health) are not recorded.
\<close>

datatype Call =
    ProcessCheckout GitCloneInfo
  | RegisterRepository string string labels
  | RequestDownloadModel ModelInfo labels
  | UploadModelToPodmanMachine ModelInfo labels
  | Build Recipe "ContainerConfig list" string labels
  | CreatePod PodCreateOptions
  | CreateContainerInPod string ContainerCreateOptions
  | StartPod string string
  | StopPod string string
  | RemovePod string string
  | LogUsage string
  | LogError string error

text \<open>
  The manager's own state: the task ledger it writes to (\<open>tasks\<close> and the counter behind
  the ids), the registry \<^verbatim>\<open>#applications\<close>, the set \<^verbatim>\<open>protectTasks\<close>, the number of
  \<^verbatim>\<open>notify()\<close> calls so far, and the calls made so far.
\<close>

record ManagerState =
  tasks :: "Task list"
  taskCounter :: nat
  applications :: "((string \<times> string) \<times> ApplicationState) list"
  protectTasks :: "string list"
  notifications :: nat
  calls :: "Call list"

text \<open>
  The container engine, as the outcome of each call. What it answers may depend on what
  it was asked to do before, so every answer takes the calls made so far.
  \<open>inspectContainer cs engineId containerId j\<close> is the answer to the \<open>j\<close>-th inspection
  of one wait.
\<close>

record Engine =
  getAllPods :: "Call list \<Rightarrow> error + PodInfo list"
  getHealth :: "Call list \<Rightarrow> PodInfo \<Rightarrow> error + PodHealth"
  createPod_result :: "Call list \<Rightarrow> PodCreateOptions \<Rightarrow> error + (string \<times> string)"
  getPod :: "Call list \<Rightarrow> string \<Rightarrow> string \<Rightarrow> error + PodInfo"
  createContainer_result :: "Call list \<Rightarrow> string \<Rightarrow> ContainerCreateOptions \<Rightarrow> error option"
  startPod :: "Call list \<Rightarrow> string \<Rightarrow> string \<Rightarrow> error option"
  stopPod :: "Call list \<Rightarrow> string \<Rightarrow> string \<Rightarrow> error option"
  removePod :: "Call list \<Rightarrow> string \<Rightarrow> string \<Rightarrow> error option"
  inspectContainer :: "Call list \<Rightarrow> string \<Rightarrow> string \<Rightarrow> nat \<Rightarrow> error + bool"

text \<open>
  The other collaborators and imports: the file system and recipe configuration behind
  \<^verbatim>\<open>getConfiguration\<close>, git, the models manager, the builder, the free-port allocator,
  the name generator and Node's \<^verbatim>\<open>path\<close>. \<open>modelProperties\<close> is
  \<^verbatim>\<open>getModelPropertiesForEnvironment\<close>.
\<close>

record World =
  engine :: Engine
  appUserDirectory :: string
  path_join :: "string list \<Rightarrow> string"
  path_basename :: "string \<Rightarrow> string"
  existsSync :: "string \<Rightarrow> bool"
  isDirectory :: "string \<Rightarrow> bool"
  parseYamlFile :: "string \<Rightarrow> string \<Rightarrow> error + ContainerConfig list"
  goarch :: string
  processCheckout :: "GitCloneInfo \<Rightarrow> error option"
  requestDownloadModel :: "ModelInfo \<Rightarrow> labels \<Rightarrow> error option"
  uploadModelToPodmanMachine :: "ModelInfo \<Rightarrow> labels \<Rightarrow> error + string"
  build :: "Recipe \<Rightarrow> ContainerConfig list \<Rightarrow> string \<Rightarrow> labels \<Rightarrow> error + ImageInfo list"
  isQEMUMachine :: bool
  modelProperties :: "ModelInfo \<Rightarrow> string list"
  getRandomName :: "string \<Rightarrow> string"
  getPortsInfo :: "string \<Rightarrow> string option"

text \<open>\<^verbatim>\<open>String(err)\<close> of a thrown \<^verbatim>\<open>Error\<close>.\<close>

fun String_of_error :: "error \<Rightarrow> string" where
  "String_of_error (Error m) = ''Error: '' @ m"

subsection \<open>The task ledger, the registry and the pod queries\<close>

text \<open>
  Modelled from the spec: the file of \<^verbatim>\<open>TaskRegistry\<close> is not among the sources. The spec
  gives a task an id, a name, a state, an optional error message and a label mapping, and
  has labels as the only link between a task and its workload. \<open>matchLabels\<close> is "bears
  these labels": every requested key is present with the requested value.
\<close>

definition matchLabels :: "labels \<Rightarrow> labels \<Rightarrow> bool" where
  "matchLabels requested actual = list_all (\<lambda>(k, v). map_of actual k = Some v) requested"

definition taskBears :: "labels \<Rightarrow> Task \<Rightarrow> bool" where
  "taskBears requested t =
     (case task_labels t of None \<Rightarrow> False | Some l \<Rightarrow> matchLabels requested l)"

text \<open>
  Modelled from the spec: \<^verbatim>\<open>TaskRegistry.createTask\<close> appends a task under an id that no
  earlier task has and returns it.
\<close>

definition createTask :: "string \<Rightarrow> TaskState \<Rightarrow> labels option \<Rightarrow> ManagerState \<Rightarrow> Task \<times> ManagerState" where
  "createTask name st lbls s =
     (let t = \<lparr>task_id = Suc (taskCounter s), task_name = name, task_state = st,
                task_error = None, task_labels = lbls\<rparr>
      in (t, s\<lparr>tasks := tasks s @ [t], taskCounter := Suc (taskCounter s)\<rparr>))"

text \<open>
  Modelled from the spec: \<^verbatim>\<open>TaskRegistry.updateTask\<close> stores the task handed in under its
  id, in place of the entry held there.
\<close>

definition updateTask :: "Task \<Rightarrow> ManagerState \<Rightarrow> ManagerState" where
  "updateTask t s = s\<lparr>tasks := map (\<lambda>u. if task_id u = task_id t then t else u) (tasks s)\<rparr>"

text \<open>
  Modelled from the spec: \<^verbatim>\<open>TaskRegistry.deleteByLabels\<close> removes all task entries bearing
  the labels handed in.
\<close>

definition deleteByLabels :: "labels \<Rightarrow> ManagerState \<Rightarrow> ManagerState" where
  "deleteByLabels requested s = s\<lparr>tasks := filter (\<lambda>t. \<not> taskBears requested t) (tasks s)\<rparr>"

text \<open>
  Modelled from the spec: \<^verbatim>\<open>PodManager.findPodByLabelsValues\<close> and
  \<^verbatim>\<open>PodManager.getPodsWithLabels\<close> are not among the sources. The first gives a pod whose
  labels carry every requested key with the requested value, the second lists the pods
  on which every requested label is present.
\<close>

definition findPodByLabelsValues :: "labels \<Rightarrow> PodInfo list \<Rightarrow> PodInfo option" where
  "findPodByLabelsValues requested pods = find (\<lambda>p. matchLabels requested (pod_Labels p)) pods"

definition getPodsWithLabels :: "string list \<Rightarrow> PodInfo list \<Rightarrow> PodInfo list" where
  "getPodsWithLabels ls pods = filter (\<lambda>p. list_all (\<lambda>l. map_of (pod_Labels p) l \<noteq> None) ls) pods"

text \<open>
  An object spread followed by the two key labels:
  \<^verbatim>\<open>{ ...labels, 'recipe-id': recipe.id, 'model-id': model.id }\<close>.
\<close>

definition keyLabels :: "string \<Rightarrow> string \<Rightarrow> labels" where
  "keyLabels recipeId modelId = [(''recipe-id'', recipeId), (''model-id'', modelId)]"

definition withKeyLabels :: "labels \<Rightarrow> string \<Rightarrow> string \<Rightarrow> labels" where
  "withKeyLabels lbls recipeId modelId =
     AList.update ''model-id'' modelId (AList.update ''recipe-id'' recipeId lbls)"

definition notify :: "ManagerState \<Rightarrow> ManagerState" where
  "notify s = s\<lparr>notifications := Suc (notifications s)\<rparr>"

definition record_call :: "Call \<Rightarrow> ManagerState \<Rightarrow> ManagerState" where
  "record_call c s = s\<lparr>calls := calls s @ [c]\<rparr>"

subsection \<open>Finding the pod of an application\<close>

definition hasApplicationPod :: "World \<Rightarrow> string \<Rightarrow> string \<Rightarrow> ManagerState \<Rightarrow> error + bool" where
  "hasApplicationPod w recipeId modelId s =
     (case getAllPods (engine w) (calls s) of
        Inl e \<Rightarrow> Inl e
      | Inr pods \<Rightarrow>
          Inr (findPodByLabelsValues
                 [(''LABEL_RECIPE_ID'', recipeId), (''LABEL_MODEL_ID'', modelId)] pods \<noteq> None))"

definition findPod :: "World \<Rightarrow> string \<Rightarrow> string \<Rightarrow> ManagerState \<Rightarrow> error + PodInfo option" where
  "findPod w recipeId modelId s =
     (case getAllPods (engine w) (calls s) of
        Inl e \<Rightarrow> Inl e
      | Inr pods \<Rightarrow>
          Inr (findPodByLabelsValues
                 [(LABEL_RECIPE_ID, recipeId), (LABEL_MODEL_ID, modelId)] pods))"

definition getApplicationPod :: "World \<Rightarrow> string \<Rightarrow> string \<Rightarrow> ManagerState \<Rightarrow> error + PodInfo" where
  "getApplicationPod w recipeId modelId s =
     (case findPod w recipeId modelId s of
        Inl e \<Rightarrow> Inl e
      | Inr None \<Rightarrow>
          Inl (Error (''no pod found with recipe Id '' @ recipeId @ '' and model Id '' @ modelId))
      | Inr (Some appPod) \<Rightarrow> Inr appPod)"

definition clearTasks :: "string \<Rightarrow> string \<Rightarrow> ManagerState \<Rightarrow> ManagerState" where
  "clearTasks recipeId modelId s = deleteByLabels (keyLabels recipeId modelId) s"

subsection \<open>Health reconciliation\<close>

text \<open>
  The body of the loop of \<^verbatim>\<open>checkPodsHealth\<close> over the labelled pods, with the registry
  and the \<^verbatim>\<open>changes\<close> flag. The registry hands out the stored state object, so the
  assignment to \<^verbatim>\<open>state.pod\<close> in the second \<^verbatim>\<open>if\<close> writes the entry as the
  \<^verbatim>\<open>set\<close> of the first does. A pod whose label reads \<^verbatim>\<open>undefined\<close> has no entry.
\<close>

fun healthLoop ::
  "(PodInfo \<Rightarrow> error + PodHealth) \<Rightarrow> PodInfo list \<Rightarrow> ((string \<times> string) \<times> ApplicationState) list
     \<Rightarrow> bool \<Rightarrow> (error + unit) \<times> ((string \<times> string) \<times> ApplicationState) list \<times> bool" where
  "healthLoop gh [] apps changes = (Inr (), apps, changes)"
| "healthLoop gh (pod # pods) apps changes =
     (case (map_of (pod_Labels pod) LABEL_RECIPE_ID, map_of (pod_Labels pod) LABEL_MODEL_ID) of
        (Some recipeId, Some modelId) \<Rightarrow>
          (case map_of apps (recipeId, modelId) of
             None \<Rightarrow> healthLoop gh pods apps changes
           | Some state \<Rightarrow>
               (case gh pod of
                  Inl e \<Rightarrow> (Inl e, apps, changes)
                | Inr podHealth \<Rightarrow>
                    let healthDiffers = (health state \<noteq> podHealth);
                        state1 = (if healthDiffers then state\<lparr>health := podHealth, app_pod := pod\<rparr>
                                  else state);
                        statusDiffers = (pod_Status pod \<noteq> pod_Status (app_pod state1));
                        state2 = (if statusDiffers then state1\<lparr>app_pod := pod\<rparr> else state1)
                    in if healthDiffers \<or> statusDiffers
                       then healthLoop gh pods (AList.update (recipeId, modelId) state2 apps) True
                       else healthLoop gh pods apps changes))
      | _ \<Rightarrow> healthLoop gh pods apps changes)"

definition checkPodsHealth :: "World \<Rightarrow> ManagerState \<Rightarrow> (error + unit) \<times> ManagerState" where
  "checkPodsHealth w s =
     (case getAllPods (engine w) (calls s) of
        Inl e \<Rightarrow> (Inl e, s)
      | Inr allPods \<Rightarrow>
          (case healthLoop (getHealth (engine w) (calls s))
                  (getPodsWithLabels [LABEL_RECIPE_ID, LABEL_MODEL_ID] allPods)
                  (applications s) False of
             (Inl e, apps, changes) \<Rightarrow> (Inl e, s\<lparr>applications := apps\<rparr>)
           | (Inr u, apps, changes) \<Rightarrow>
               (Inr (), if changes then notify (s\<lparr>applications := apps\<rparr>)
                        else s\<lparr>applications := apps\<rparr>)))"

subsection \<open>Creating the pod and its containers\<close>

text \<open>
  The two nested loops of \<^verbatim>\<open>createPod\<close> over the images and their declared ports: a
  mapping is pushed for every port the allocator answers with a non-empty string.
\<close>

definition portMappingOf :: "World \<Rightarrow> string \<Rightarrow> PodCreatePortOptions list" where
  "portMappingOf w exposed =
     (case getPortsInfo w exposed of
        None \<Rightarrow> []
      | Some localPorts \<Rightarrow>
          if localPorts = [] then []
          else [\<lparr>container_port = parseInt exposed, host_port = parseInt localPorts,
                  host_ip = [], protocol = [], range = 1\<rparr>])"

definition portMappingsOf :: "World \<Rightarrow> ImageInfo list \<Rightarrow> PodCreatePortOptions list" where
  "portMappingsOf w images = concat (map (\<lambda>img. concat (map (portMappingOf w) (ports img))) images)"

text \<open>
  \<^verbatim>\<open>portmappings.find(pm => `${pm.container_port}` === port)?.host_port\<close>, printed as
  \<^verbatim>\<open>join\<close> prints it: a port without a mapping is \<^verbatim>\<open>undefined\<close> and prints as the empty
  string.
\<close>

definition hostPortText :: "PodCreatePortOptions list \<Rightarrow> string \<Rightarrow> string" where
  "hostPortText pms p =
     (case find (\<lambda>pm. string_of_number (container_port pm) = p) pms of
        None \<Rightarrow> []
      | Some pm \<Rightarrow> string_of_number (host_port pm))"

definition podLabels :: "Recipe \<Rightarrow> ModelInfo \<Rightarrow> ImageInfo list \<Rightarrow> PodCreatePortOptions list \<Rightarrow> labels" where
  "podLabels recipe model images pms =
     (let labels0 = [(LABEL_RECIPE_ID, recipe_id recipe), (LABEL_MODEL_ID, model_id model)];
          modelPorts = map (hostPortText pms) (concat (map ports (filter modelService images)));
          labels1 = (if length modelPorts \<noteq> 0
                     then AList.update LABEL_MODEL_PORTS (join '','' modelPorts) labels0
                     else labels0);
          appPorts = map (hostPortText pms)
                       (concat (map ports (filter (\<lambda>img. \<not> modelService img) images)))
      in if length appPorts \<noteq> 0
         then AList.update LABEL_APP_PORTS (join '','' appPorts) labels1
         else labels1)"

definition createPod ::
  "World \<Rightarrow> Recipe \<Rightarrow> ModelInfo \<Rightarrow> ImageInfo list \<Rightarrow> ManagerState \<Rightarrow> (error + PodInfo) \<times> ManagerState" where
  "createPod w recipe model images s =
     (case find (\<lambda>img. \<not> modelService img) images of
        None \<Rightarrow> (Inl (Error ''no sample app found''), s)
      | Some sampleAppImageInfo \<Rightarrow>
          let pms = portMappingsOf w images;
              opts = \<lparr>pc_name = getRandomName w (''pod-'' @ appName sampleAppImageInfo),
                      portmappings = pms,
                      pc_labels = podLabels recipe model images pms\<rparr>;
              s1 = record_call (CreatePod opts) s
          in case createPod_result (engine w) (calls s) opts of
               Inl e \<Rightarrow> (Inl e, s1)
             | Inr (engineId, podId) \<Rightarrow>
                 (case getPod (engine w) (calls s1) engineId podId of
                    Inl e \<Rightarrow> (Inl e, s1)
                  | Inr podInfo \<Rightarrow> (Inr podInfo, s1)))"

text \<open>
  The options that the callback of \<^verbatim>\<open>createContainerAndAttachToPod\<close> builds for one
  image.
\<close>

definition containerOptions ::
  "World \<Rightarrow> PodInfo \<Rightarrow> ImageInfo list \<Rightarrow> ModelInfo \<Rightarrow> string \<Rightarrow> ImageInfo \<Rightarrow> ContainerCreateOptions" where
  "containerOptions w podInfo images modelInfo modelPath img =
     (let modelName = path_basename w modelPath;
          hostConfig =
            (if modelService img
             then Some \<lparr>AutoRemove = None, Devices = None,
                        Mounts = Some [\<lparr>Target = ''/'' @ modelName, Source = modelPath, Type = ''bind'',
                                         Mode = (if isQEMUMachine w then None else Some ''Z'')\<rparr>],
                        DeviceRequests = None, SecurityOpt = None, PortBindings = None\<rparr>
             else None);
          envs =
            (if modelService img
             then [''MODEL_PATH=/'' @ modelName] @ modelProperties w modelInfo
             else (case find modelService images of
                     None \<Rightarrow> []
                   | Some ms \<Rightarrow>
                       if length (ports ms) > 0
                       then [''MODEL_ENDPOINT='' @ (''http://localhost:'' @ hd (ports ms))]
                       else []));
          healthcheck =
            (if length (ports img) > 0
             then Some \<lparr>Test = [''CMD-SHELL'', ''curl -s localhost:'' @ hd (ports img) @ '' > /dev/null''],
                        Interval = SECOND * 5, Retries = 4 * 5, Timeout = Some (SECOND * 2)\<rparr>
             else None)
      in \<lparr>Image = img_id img,
          cc_name = Some (getRandomName w (appName img @ ''-podified'')),
          Detach = True,
          Entrypoint = None,
          User = None,
          ExposedPorts = None,
          HostConfig = hostConfig,
          HealthCheck = healthcheck,
          Labels = None,
          Env = envs,
          Cmd = None,
          cc_start = Some False,
          cc_pod = Some (pod_Id podInfo)\<rparr>)"

text \<open>
  \<^verbatim>\<open>Promise.all\<close> over the images: every callback runs up to its
  \<^verbatim>\<open>createContainer\<close> call, so all the calls are made, in the order of the images; the
  whole fails with an error of a call that failed (here the first in that order).
\<close>

fun attachAll ::
  "World \<Rightarrow> string \<Rightarrow> ContainerCreateOptions list \<Rightarrow> ManagerState \<Rightarrow> (error + unit) \<times> ManagerState" where
  "attachAll w engineId [] s = (Inr (), s)"
| "attachAll w engineId (opts # rest) s =
     (case attachAll w engineId rest (record_call (CreateContainerInPod engineId opts) s) of
        (r, s1) \<Rightarrow>
          (case createContainer_result (engine w) (calls s) engineId opts of
             Some e \<Rightarrow> (Inl e, s1)
           | None \<Rightarrow> (r, s1)))"

definition createContainerAndAttachToPod ::
  "World \<Rightarrow> PodInfo \<Rightarrow> ImageInfo list \<Rightarrow> ModelInfo \<Rightarrow> string \<Rightarrow> ManagerState
     \<Rightarrow> (error + unit) \<times> ManagerState" where
  "createContainerAndAttachToPod w podInfo images modelInfo modelPath s =
     attachAll w (pod_engineId podInfo)
       (map (containerOptions w podInfo images modelInfo modelPath) images) s"

definition createApplicationPod ::
  "World \<Rightarrow> Recipe \<Rightarrow> ModelInfo \<Rightarrow> ImageInfo list \<Rightarrow> string \<Rightarrow> labels option \<Rightarrow> ManagerState
     \<Rightarrow> (error + PodInfo) \<times> ManagerState" where
  "createApplicationPod w recipe model images modelPath lbls s =
     (case createTask ''Creating AI App'' loading lbls s of
        (task, s1) \<Rightarrow>
          (case createPod w recipe model images s1 of
             (Inl e, s2) \<Rightarrow>
               (Inl e,
                updateTask (task\<lparr>task_state := error,
                                  task_error := Some (''Something went wrong while creating pod: '' @ String_of_error e)\<rparr>) s2)
           | (Inr podInfo, s2) \<Rightarrow>
               let task1 = task\<lparr>task_labels :=
                             Some (AList.update ''pod-id'' (pod_Id podInfo)
                                     (case task_labels task of None \<Rightarrow> [] | Some l \<Rightarrow> l))\<rparr>;
                   s3 = updateTask task1 s2
               in (case createContainerAndAttachToPod w podInfo images model modelPath s3 of
                     (Inl e, s4) \<Rightarrow>
                       (Inl e,
                        updateTask (task1\<lparr>task_state := error,
                                           task_error := Some (''Something went wrong while creating pod: '' @ String_of_error e)\<rparr>) s4)
                   | (Inr u, s4) \<Rightarrow>
                       (Inr podInfo, updateTask (task1\<lparr>task_state := success\<rparr>) s4))))"

subsection \<open>Stopping, removing and starting\<close>

definition stopApplication ::
  "World \<Rightarrow> string \<Rightarrow> string \<Rightarrow> ManagerState \<Rightarrow> (error + PodInfo) \<times> ManagerState" where
  "stopApplication w recipeId modelId s =
     (let s1 = clearTasks recipeId modelId s in
      case getApplicationPod w recipeId modelId s1 of
        Inl e \<Rightarrow> (Inl e, s1)
      | Inr appPod \<Rightarrow>
          if pod_Status appPod = ''Exited'' then (Inr appPod, s1)
          else
            (case createTask ''Stopping AI App'' loading (Some (keyLabels recipeId modelId)) s1 of
               (stoppingTask, s2) \<Rightarrow>
                 let s3 = record_call (StopPod (pod_engineId appPod) (pod_Id appPod)) s2;
                     stoppingTask1 =
                       (case stopPod (engine w) (calls s2) (pod_engineId appPod) (pod_Id appPod) of
                          None \<Rightarrow> stoppingTask\<lparr>task_state := success, task_name := ''AI App Stopped''\<rparr>
                        | Some err \<Rightarrow>
                            stoppingTask\<lparr>task_error := Some (''Error removing the pod.: '' @ String_of_error err),
                                          task_name := ''Error stopping AI App''\<rparr>);
                     s4 = updateTask stoppingTask1 s3
                 in (case checkPodsHealth w s4 of
                       (Inl e, s5) \<Rightarrow> (Inl e, s5)
                     | (Inr u, s5) \<Rightarrow> (Inr appPod, s5))))"

definition removeApplication ::
  "World \<Rightarrow> string \<Rightarrow> string \<Rightarrow> ManagerState \<Rightarrow> (error + unit) \<times> ManagerState" where
  "removeApplication w recipeId modelId s =
     (case stopApplication w recipeId modelId s of
        (Inl e, s1) \<Rightarrow> (Inl e, s1)
      | (Inr appPod, s1) \<Rightarrow>
          (case createTask ''Removing AI App'' loading (Some (keyLabels recipeId modelId)) s1 of
             (remoteTask, s2) \<Rightarrow>
               let s3 = s2\<lparr>protectTasks := List.insert (pod_Id appPod) (protectTasks s2)\<rparr>;
                   s4 = record_call (RemovePod (pod_engineId appPod) (pod_Id appPod)) s3;
                   remoteTask1 =
                     (case removePod (engine w) (calls s3) (pod_engineId appPod) (pod_Id appPod) of
                        None \<Rightarrow> remoteTask\<lparr>task_state := success, task_name := ''AI App Removed''\<rparr>
                      | Some err \<Rightarrow>
                          remoteTask\<lparr>task_error := Some ''error removing the pod. Please try to remove the pod manually'',
                                      task_name := ''Error stopping AI App''\<rparr>)
               in (Inr (), updateTask remoteTask1 s4)))"

text \<open>
  The loop of \<^verbatim>\<open>runApplication\<close> over the containers of the pod: each is waited for in
  turn, and the first wait that throws ends the loop.
\<close>

fun waitAll :: "(string \<Rightarrow> nat \<Rightarrow> error + bool) \<Rightarrow> PodContainerInfo list \<Rightarrow> error + unit" where
  "waitAll inspect [] = Inr ()"
| "waitAll inspect (c # cs) =
     (case fst (waitContainerIsRunning (inspect (container_Id c)) (container_Id c)) of
        Inl e \<Rightarrow> Inl e
      | Inr u \<Rightarrow> waitAll inspect cs)"

definition runApplication ::
  "World \<Rightarrow> PodInfo \<Rightarrow> labels option \<Rightarrow> ManagerState \<Rightarrow> (error + unit) \<times> ManagerState" where
  "runApplication w podInfo lbls s =
     (case createTask ''Starting AI App'' loading lbls s of
        (task, s1) \<Rightarrow>
          let s2 = record_call (StartPod (pod_engineId podInfo) (pod_Id podInfo)) s1 in
          (case startPod (engine w) (calls s1) (pod_engineId podInfo) (pod_Id podInfo) of
             Some e \<Rightarrow> (Inl e, s2)
           | None \<Rightarrow>
               (case waitAll (inspectContainer (engine w) (calls s2) (pod_engineId podInfo))
                        (case pod_Containers podInfo of None \<Rightarrow> [] | Some cs \<Rightarrow> cs) of
                  Inl e \<Rightarrow> (Inl e, s2)
                | Inr u \<Rightarrow>
                    checkPodsHealth w
                      (updateTask (task\<lparr>task_state := success, task_name := ''AI App is running''\<rparr>) s2))))"

definition startApplication ::
  "World \<Rightarrow> string \<Rightarrow> string \<Rightarrow> ManagerState \<Rightarrow> (error + unit) \<times> ManagerState" where
  "startApplication w recipeId modelId s =
     (let s1 = clearTasks recipeId modelId s in
      case getApplicationPod w recipeId modelId s1 of
        Inl e \<Rightarrow> (Inl e, s1)
      | Inr appPod \<Rightarrow> runApplication w appPod (Some (keyLabels recipeId modelId)) s1)"

subsection \<open>The pull pipeline\<close>

definition doCheckout ::
  "World \<Rightarrow> GitCloneInfo \<Rightarrow> labels \<Rightarrow> ManagerState \<Rightarrow> (error + unit) \<times> ManagerState" where
  "doCheckout w gitCloneInfo lbls s =
     (case createTask ''Checking out repository'' loading
             (Some (AList.update ''git'' ''checkout'' lbls)) s of
        (checkoutTask, s1) \<Rightarrow>
          let s2 = record_call (ProcessCheckout gitCloneInfo) s1 in
          (case processCheckout w gitCloneInfo of
             None \<Rightarrow> (Inr (), updateTask (checkoutTask\<lparr>task_state := success\<rparr>) s2)
           | Some err \<Rightarrow>
               (Inl err,
                updateTask (checkoutTask\<lparr>task_state := error,
                                          task_error := Some (String_of_error err)\<rparr>) s2)))"

definition cloneApplication ::
  "World \<Rightarrow> Recipe \<Rightarrow> labels option \<Rightarrow> ManagerState \<Rightarrow> (error + unit) \<times> ManagerState" where
  "cloneApplication w recipe lbls s =
     (let localFolder = path_join w [appUserDirectory w, recipe_id recipe];
          gitCloneInfo = \<lparr>git_repository = repository recipe, git_ref = ref recipe,
                           targetDirectory = localFolder\<rparr>
      in case doCheckout w gitCloneInfo
                (AList.update ''recipe-id'' (recipe_id recipe) (case lbls of None \<Rightarrow> [] | Some l \<Rightarrow> l)) s of
           (Inl e, s1) \<Rightarrow> (Inl e, s1)
         | (Inr u, s1) \<Rightarrow>
             (Inr (),
              record_call
                (RegisterRepository (targetDirectory gitCloneInfo)
                   (path_join w [targetDirectory gitCloneInfo,
                                 (case basedir recipe of None \<Rightarrow> [] | Some b \<Rightarrow> b)])
                   [(''recipe-id'', recipe_id recipe)]) s1))"

definition filterContainers :: "World \<Rightarrow> ContainerConfig list \<Rightarrow> ContainerConfig list" where
  "filterContainers w cs =
     filter (\<lambda>container. length (gpu_env container) = 0 \<and> list_ex (\<lambda>arc. arc = goarch w) (arch container)) cs"

definition getConfiguration :: "World \<Rightarrow> string option \<Rightarrow> string \<Rightarrow> error + AIConfigFile" where
  "getConfiguration w recipeBaseDir localFolder =
     (let configFile = (case recipeBaseDir of
                          Some b \<Rightarrow> path_join w [localFolder, b, CONFIG_FILENAME]
                        | None \<Rightarrow> path_join w [localFolder, CONFIG_FILENAME])
      in if \<not> existsSync w configFile
         then Inl (Error (''The file located at '' @ configFile @ '' does not exist.''))
         else
           let tmpPath = path_join w [configFile, CONFIG_FILENAME];
               configFile1 = (if isDirectory w configFile \<and> existsSync w tmpPath then tmpPath
                              else configFile)
           in case parseYamlFile w configFile1 (goarch w) of
                Inl err \<Rightarrow> Inl (Error ''Cannot load configuration file.'')
              | Inr cfg \<Rightarrow> Inr \<lparr>aiConfig = cfg, config_path = configFile1\<rparr>)"

definition getConfigAndFilterContainers ::
  "World \<Rightarrow> string option \<Rightarrow> string \<Rightarrow> labels option \<Rightarrow> ManagerState
     \<Rightarrow> (error + AIContainers) \<times> ManagerState" where
  "getConfigAndFilterContainers w recipeBaseDir localFolder lbls s =
     (case createTask ''Loading configuration'' loading lbls s of
        (task, s1) \<Rightarrow>
          (case getConfiguration w recipeBaseDir localFolder of
             Inl e \<Rightarrow>
               (Inl e,
                updateTask (task\<lparr>task_error :=
                                    Some (''Something went wrong while loading configuration: ''
                                            @ String_of_error e @ ''.'')\<rparr>) s1)
           | Inr cfgFile \<Rightarrow>
               let filteredContainers = filterContainers w (aiConfig cfgFile) in
               if length filteredContainers > 0
               then (Inr \<lparr>aiConfigFile = cfgFile, containers = filteredContainers\<rparr>,
                     updateTask (task\<lparr>task_state := success\<rparr>) s1)
               else (Inl (Error ''No containers available.''),
                     updateTask (task\<lparr>task_error := Some ''No containers available.''\<rparr>) s1)))"

text \<open>
  The last two steps of \<^verbatim>\<open>initApplication\<close>, once the images are built: "first delete
  any existing pod with matching labels", then create the pod.
\<close>

definition replacePod ::
  "World \<Rightarrow> Recipe \<Rightarrow> ModelInfo \<Rightarrow> ImageInfo list \<Rightarrow> string \<Rightarrow> labels \<Rightarrow> ManagerState
     \<Rightarrow> (error + PodInfo) \<times> ManagerState" where
  "replacePod w recipe model images modelPath lbls s =
     (case hasApplicationPod w (recipe_id recipe) (model_id model) s of
        Inl e \<Rightarrow> (Inl e, s)
      | Inr exists \<Rightarrow>
          (case (if exists then removeApplication w (recipe_id recipe) (model_id model) s
                 else (Inr (), s)) of
             (Inl e, s1) \<Rightarrow> (Inl e, s1)
           | (Inr u, s1) \<Rightarrow>
               createApplicationPod w recipe model images modelPath
                 (Some (withKeyLabels lbls (recipe_id recipe) (model_id model))) s1))"

definition initApplication ::
  "World \<Rightarrow> Recipe \<Rightarrow> ModelInfo \<Rightarrow> labels \<Rightarrow> ManagerState \<Rightarrow> (error + PodInfo) \<times> ManagerState" where
  "initApplication w recipe model lbls s =
     (let localFolder = path_join w [appUserDirectory w, recipe_id recipe];
          keyed = withKeyLabels lbls (recipe_id recipe) (model_id model)
      in case cloneApplication w recipe (Some (AList.update ''model-id'' (model_id model) lbls)) s of
           (Inl e, s1) \<Rightarrow> (Inl e, s1)
         | (Inr u, s1) \<Rightarrow>
             (case getConfigAndFilterContainers w (basedir recipe) localFolder None s1 of
                (Inl e, s2) \<Rightarrow> (Inl e, s2)
              | (Inr configAndFilteredContainers, s2) \<Rightarrow>
                  let s3 = record_call (RequestDownloadModel model keyed) s2 in
                  (case requestDownloadModel w model keyed of
                     Some e \<Rightarrow> (Inl e, s3)
                   | None \<Rightarrow>
                       let s4 = record_call (UploadModelToPodmanMachine model keyed) s3 in
                       (case uploadModelToPodmanMachine w model keyed of
                          Inl e \<Rightarrow> (Inl e, s4)
                        | Inr modelPath \<Rightarrow>
                            let s5 = record_call
                                       (Build recipe (containers configAndFilteredContainers)
                                          (config_path (aiConfigFile configAndFilteredContainers)) keyed) s4
                            in (case build w recipe (containers configAndFilteredContainers)
                                       (config_path (aiConfigFile configAndFilteredContainers)) keyed of
                                  Inl e \<Rightarrow> (Inl e, s5)
                                | Inr images \<Rightarrow> replacePod w recipe model images modelPath lbls s5)))))"

definition pullApplication ::
  "World \<Rightarrow> Recipe \<Rightarrow> ModelInfo \<Rightarrow> labels \<Rightarrow> ManagerState \<Rightarrow> (error + unit) \<times> ManagerState" where
  "pullApplication w recipe model lbls s =
     (let s0 = deleteByLabels (keyLabels (recipe_id recipe) (model_id model)) s in
      case initApplication w recipe model lbls s0 of
        (Inl e, s1) \<Rightarrow> (Inl e, record_call (LogError ''recipe.pull'' e) s1)
      | (Inr podInfo, s1) \<Rightarrow>
          (case runApplication w podInfo
                  (Some (withKeyLabels lbls (recipe_id recipe) (model_id model))) s1 of
             (Inl e, s2) \<Rightarrow> (Inl e, record_call (LogError ''recipe.pull'' e) s2)
           | (Inr u, s2) \<Rightarrow> (Inr (), record_call (LogUsage ''recipe.pull'') s2)))"

subsection \<open>What a reconciliation pass is compared with\<close>




subsection \<open>What a pull is compared with\<close>

text \<open>
  Every task of the ledger that bears the labels \<open>K\<close> was created after the counter
  stood at \<open>c0\<close>.
\<close>

definition newerThan :: "nat \<Rightarrow> labels \<Rightarrow> ManagerState \<Rightarrow> bool" where
  "newerThan c0 K s =
     (c0 \<le> taskCounter s \<and> (\<forall>t\<in>set (tasks s). taskBears K t \<longrightarrow> c0 < task_id t))"

text \<open>The clone request that \<^verbatim>\<open>cloneApplication\<close> builds for a recipe.\<close>

definition cloneInfoOf :: "World \<Rightarrow> Recipe \<Rightarrow> GitCloneInfo" where
  "cloneInfoOf w recipe =
     \<lparr>git_repository = repository recipe, git_ref = ref recipe,
      targetDirectory = path_join w [appUserDirectory w, recipe_id recipe]\<rparr>"

text \<open>The calls of a record that stop or remove a pod.\<close>

fun removals :: "Call list \<Rightarrow> Call list" where
  "removals [] = []"
| "removals (StopPod e p # cs) = StopPod e p # removals cs"
| "removals (RemovePod e p # cs) = RemovePod e p # removals cs"
| "removals (c # cs) = removals cs"

section \<open>Example inputs\<close>

definition model_m1 :: ModelInfo where
  "model_m1 = \<lparr>model_id = ''m1'',
                model_file = Some \<lparr>lm_file = ''model.gguf'', lm_path = ''/home/user/models''\<rparr>\<rparr>"

definition model_nofile :: ModelInfo where
  "model_nofile = \<lparr>model_id = ''m2'', model_file = None\<rparr>"

definition config_of :: "ModelInfo list \<Rightarrow> InferenceServerConfig" where
  "config_of ms = \<lparr>port = 8000, providerId = None, image = None, config_labels = [],
                   modelsInfo = ms, gpuLayers = None\<rparr>"

definition pulled_image :: EngineImageInfo where
  "pulled_image = \<lparr>image_Id = ''sha256:1'', image_engineId = ''podman''\<rparr>"

definition provider_env :: "IGPUInfo list \<Rightarrow> ProviderEnv" where
  "provider_env gpus =
     \<lparr>collectGPUs = Inr gpus,
      pullImage = (\<lambda>p i l. Inr pulled_image),
      createContainer = (\<lambda>e opts l. Inr \<lparr>result_id = ''c1'', result_engineId = e\<rparr>),
      getModelPropertiesForEnvironment = (\<lambda>m. []),
      DISABLE_SELINUX_LABEL_SECURITY_OPTION = ''label=disable'',
      LABEL_INFERENCE_SERVER = ''ai-lab-inference-server'',
      JSON_stringify = (\<lambda>ids. concat ids)\<rparr>"

definition gpu_a :: IGPUInfo where
  "gpu_a = \<lparr>gpu_model = ''NVIDIA A''\<rparr>"

definition gpu_b :: IGPUInfo where
  "gpu_b = \<lparr>gpu_model = ''NVIDIA B''\<rparr>"

definition pod_of :: "string \<Rightarrow> string \<Rightarrow> labels \<Rightarrow> PodInfo" where
  "pod_of podId status lbls =
     \<lparr>pod_engineId = ''podman'', pod_Id = podId, pod_Status = status, pod_Labels = lbls,
      pod_Containers = Some [\<lparr>container_Id = podId @ ''-c1''\<rparr>]\<rparr>"

definition pod_r1m1 :: PodInfo where
  "pod_r1m1 = pod_of ''pod1'' ''Running'' [(''ai-lab-recipe-id'', ''r1''), (''ai-lab-model-id'', ''m1'')]"


definition pod_exited :: PodInfo where
  "pod_exited = pod_of ''pod1'' ''Exited'' [(''ai-lab-recipe-id'', ''r1''), (''ai-lab-model-id'', ''m1'')]"

definition app_r1m1 :: ApplicationState where
  "app_r1m1 = \<lparr>app_recipeId = ''r1'', app_modelId = ''m1'', app_pod = pod_r1m1,
                appPorts = [8501], modelPorts = [8000], health = starting\<rparr>"

definition task_of :: "nat \<Rightarrow> string \<Rightarrow> TaskState \<Rightarrow> labels \<Rightarrow> Task" where
  "task_of n name st lbls =
     \<lparr>task_id = n, task_name = name, task_state = st, task_error = None, task_labels = Some lbls\<rparr>"

definition manager_of :: "Task list \<Rightarrow> ManagerState" where
  "manager_of ts =
     \<lparr>tasks = ts, taskCounter = foldr max (map task_id ts) 0, applications = [((''r1'', ''m1''), app_r1m1)],
      protectTasks = [], notifications = 0, calls = []\<rparr>"

definition example_engine :: "PodInfo list \<Rightarrow> (PodInfo \<Rightarrow> error + PodHealth) \<Rightarrow> Engine" where
  "example_engine pods gh =
     \<lparr>getAllPods = (\<lambda>cs. Inr pods),
      getHealth = (\<lambda>cs. gh),
      createPod_result = (\<lambda>cs opts. Inr (''podman'', ''pod-new'')),
      getPod = (\<lambda>cs engineId podId. Inr (pod_of podId ''Created'' [])),
      createContainer_result = (\<lambda>cs engineId opts. None),
      startPod = (\<lambda>cs engineId podId. None),
      stopPod = (\<lambda>cs engineId podId. None),
      removePod = (\<lambda>cs engineId podId. None),
      inspectContainer = (\<lambda>cs engineId containerId j. Inr True)\<rparr>"

definition example_world ::
  "PodInfo list \<Rightarrow> (PodInfo \<Rightarrow> error + PodHealth) \<Rightarrow> (string \<Rightarrow> string option) \<Rightarrow> World" where
  "example_world pods gh allocate =
     \<lparr>engine = example_engine pods gh,
      appUserDirectory = ''/home/user/ai-lab'',
      path_join = join ''/'',
      path_basename = (\<lambda>p. rev (takeWhile (\<lambda>c. c \<noteq> CHR ''/'') (rev p))),
      existsSync = (\<lambda>p. True),
      isDirectory = (\<lambda>p. False),
      parseYamlFile = (\<lambda>p a. Inr [\<lparr>container_name = ''app'', gpu_env = [], arch = [a]\<rparr>]),
      goarch = ''amd64'',
      processCheckout = (\<lambda>g. None),
      requestDownloadModel = (\<lambda>m l. None),
      uploadModelToPodmanMachine = (\<lambda>m l. Inr ''/home/user/models/model.gguf''),
      build = (\<lambda>r cs p l. Inr []),
      isQEMUMachine = False,
      modelProperties = (\<lambda>m. []),
      getRandomName = (\<lambda>prefix. prefix @ ''-1''),
      getPortsInfo = allocate\<rparr>"

definition recipe_r1 :: Recipe where
  "recipe_r1 = \<lparr>recipe_id = ''r1'', recipe_name = ''ChatBot'',
                 repository = ''https://example.com/chatbot.git'', ref = None, basedir = None\<rparr>"

definition image_model :: ImageInfo where
  "image_model = \<lparr>img_id = ''sha256:ms'', modelService = True, ports = [''8000''], appName = ''llm''\<rparr>"

definition image_app :: ImageInfo where
  "image_app = \<lparr>img_id = ''sha256:app'', modelService = False, ports = [''8501''], appName = ''chat''\<rparr>"

definition image_worker :: ImageInfo where
  "image_worker = \<lparr>img_id = ''sha256:job'', modelService = False, ports = [], appName = ''job''\<rparr>"




definition world_no_config :: World where
  "world_no_config = (example_world [] (\<lambda>p. Inr none) Map.empty)\<lparr>existsSync := \<lambda>p. False\<rparr>"

definition world_start_rejected :: World where
  "world_start_rejected =
     (example_world [] (\<lambda>p. Inr none) Map.empty)
       \<lparr>engine := (example_engine [] (\<lambda>p. Inr none))
                     \<lparr>startPod := \<lambda>cs engineId podId. Some (Error ''cannot start'')\<rparr>\<rparr>"

definition config_task :: "nat \<Rightarrow> Task" where
  "config_task n =
     \<lparr>task_id = n, task_name = ''Loading configuration'', task_state = loading,
      task_error = Some (''Something went wrong while loading configuration: ''
         @ ''Error: The file located at /home/user/ai-lab/r1/ai-lab.yaml does not exist.'' @ ''.''),
      task_labels = None\<rparr>"

definition checkout_task :: "nat \<Rightarrow> Task" where
  "checkout_task n =
     \<lparr>task_id = n, task_name = ''Checking out repository'', task_state = success,
      task_error = None,
      task_labels = Some [(''model-id'', ''m1''), (''recipe-id'', ''r1''), (''git'', ''checkout'')]\<rparr>"


section \<open>Properties of the inference provider\<close>

lemma selectGPU_none:
  "gpuLayers config = Some n \<Longrightarrow> n > 0 \<Longrightarrow> collectGPUs env = Inr [] \<Longrightarrow>
     selectGPU env config = ([CollectGPUs], Inl (Error ''no gpu was found.''))"
  by (simp add: selectGPU_def)

lemma selectGPU_many:
  "gpuLayers config = Some n \<Longrightarrow> n > 0 \<Longrightarrow> collectGPUs env = Inr gpus \<Longrightarrow> length gpus > 1 \<Longrightarrow>
     selectGPU env config = ([CollectGPUs, Warn (multiple_gpus_warning gpus)], Inr (Some (hd gpus)))"
  by (cases gpus) (simp_all add: selectGPU_def)

lemma selectGPU_off:
  "gpuLayers config = None \<or> gpuLayers config = Some 0 \<Longrightarrow> selectGPU env config = ([], Inr None)"
  by (auto simp: selectGPU_def)

lemma pulled_provision:
  "pulled (fst (provision env config gpu)) = [selectImage config gpu]"
  by (simp add: provision_def Let_def split: sum.splits)

lemma provision_no_collect:
  "CollectGPUs \<notin> set (fst (provision env config gpu))"
  by (simp add: provision_def Let_def split: sum.splits)

lemma getContainerCreateOptions_collectGPUs:
  "getContainerCreateOptions (env\<lparr>collectGPUs := g\<rparr>) config imageInfo gpu
     = getContainerCreateOptions env config imageInfo gpu"
  by (simp add: getContainerCreateOptions_def Let_def cong: option.case_cong if_cong)

lemma provision_collectGPUs:
  "provision (env\<lparr>collectGPUs := g\<rparr>) config gpu = provision env config gpu"
  by (simp add: provision_def getContainerCreateOptions_collectGPUs Let_def cong: sum.case_cong)

lemma perform_collectGPUs_off:
  assumes "gpuLayers config = None \<or> gpuLayers config = Some 0"
  shows "perform (env\<lparr>collectGPUs := g\<rparr>) config = perform env config"
proof -
  have "selectGPU (env\<lparr>collectGPUs := g\<rparr>) config = ([], Inr None)"
    using assms by (rule selectGPU_off)
  moreover have "selectGPU env config = ([], Inr None)"
    using assms by (rule selectGPU_off)
  ultimately show ?thesis
    by (simp add: perform_def provision_collectGPUs)
qed

text \<open>
  C4, as the code has it. With \<^verbatim>\<open>gpuLayers > 0\<close>: when the enumeration finds no GPU,
  \<^verbatim>\<open>perform\<close> throws "no gpu was found." and has made no call but the enumeration, so no
  image was pulled and no container created; when it finds more than one, \<^verbatim>\<open>perform\<close>
  warns, goes on with the first GPU of the list, and pulls the image override when the
  configuration has one and the CUDA image otherwise. With \<^verbatim>\<open>gpuLayers\<close> absent or 0 the
  GPUs are not enumerated, the outcome is the same whatever the enumeration would answer,
  and the image pulled is the override when there is one and the CPU image otherwise.
\<close>

theorem perform_gpu_selection:
  "(gpuLayers config = Some n \<and> n > 0 \<and> collectGPUs env = Inr [] \<longrightarrow>
       perform env config = ([CollectGPUs], Inl (Error ''no gpu was found.'')))
   \<and> (gpuLayers config = Some n \<and> n > 0 \<and> collectGPUs env = Inr gpus \<and> length gpus > 1 \<longrightarrow>
         perform env config =
           ([CollectGPUs, Warn (multiple_gpus_warning gpus)] @ fst (provision env config (Some (hd gpus))),
            snd (provision env config (Some (hd gpus))))
       \<and> pulled (fst (perform env config))
            = [case image config of Some i \<Rightarrow> i | None \<Rightarrow> LLAMA_CPP_CUDA])
   \<and> (gpuLayers config = None \<or> gpuLayers config = Some 0 \<longrightarrow>
       (\<forall>g. perform (env\<lparr>collectGPUs := g\<rparr>) config = perform env config)
       \<and> CollectGPUs \<notin> set (fst (perform env config))
       \<and> pulled (fst (perform env config))
            = [case image config of Some i \<Rightarrow> i | None \<Rightarrow> LLAMA_CPP_CPU])"
proof (intro conjI allI impI)
  assume "gpuLayers config = Some n \<and> 0 < n \<and> collectGPUs env = Inr []"
  then show "perform env config = ([CollectGPUs], Inl (Error ''no gpu was found.''))"
    by (simp add: perform_def selectGPU_none)
next
  assume a: "gpuLayers config = Some n \<and> 0 < n \<and> collectGPUs env = Inr gpus \<and> 1 < length gpus"
  then have s: "selectGPU env config
                  = ([CollectGPUs, Warn (multiple_gpus_warning gpus)], Inr (Some (hd gpus)))"
    by (simp add: selectGPU_many)
  show "perform env config =
           ([CollectGPUs, Warn (multiple_gpus_warning gpus)] @ fst (provision env config (Some (hd gpus))),
            snd (provision env config (Some (hd gpus))))"
    by (simp add: perform_def s split: prod.splits)
  have "pulled (fst (perform env config)) = pulled (fst (provision env config (Some (hd gpus))))"
    by (simp add: perform_def s split: prod.splits)
  then show "pulled (fst (perform env config))
               = [case image config of Some i \<Rightarrow> i | None \<Rightarrow> LLAMA_CPP_CUDA]"
    by (simp add: pulled_provision selectImage_def)
next
  fix g assume "gpuLayers config = None \<or> gpuLayers config = Some 0"
  then show "perform (env\<lparr>collectGPUs := g\<rparr>) config = perform env config"
    by (rule perform_collectGPUs_off)
next
  assume "gpuLayers config = None \<or> gpuLayers config = Some 0"
  then have s: "selectGPU env config = ([], Inr None)" by (rule selectGPU_off)
  have l: "fst (perform env config) = fst (provision env config None)"
    by (simp add: perform_def s split: prod.splits)
  show "CollectGPUs \<notin> set (fst (perform env config))"
    by (simp add: l provision_no_collect)
  show "pulled (fst (perform env config))
          = [case image config of Some i \<Rightarrow> i | None \<Rightarrow> LLAMA_CPP_CPU]"
    by (simp add: l pulled_provision selectImage_def)
qed

text \<open>
  The three cases at concrete inputs: a GPU request with no GPU, a GPU request with two
  GPUs and no override, and a configuration that requests no GPU.
\<close>

theorem perform_gpu_selection_witness:
  "perform (provider_env []) ((config_of [model_m1])\<lparr>gpuLayers := Some 1\<rparr>)
     = ([CollectGPUs], Inl (Error ''no gpu was found.''))
   \<and> pulled (fst (perform (provider_env [gpu_a, gpu_b]) ((config_of [model_m1])\<lparr>gpuLayers := Some 1\<rparr>)))
     = [LLAMA_CPP_CUDA]
   \<and> pulled (fst (perform (provider_env [gpu_a, gpu_b]) (config_of [model_m1]))) = [LLAMA_CPP_CPU]"
proof -
  have a: "gpuLayers ((config_of [model_m1])\<lparr>gpuLayers := Some 1\<rparr>) = Some 1 \<and> (0::int) < 1
             \<and> collectGPUs (provider_env []) = Inr []"
    by (simp add: provider_env_def)
  have b: "gpuLayers ((config_of [model_m1])\<lparr>gpuLayers := Some 1\<rparr>) = Some 1 \<and> (0::int) < 1
             \<and> collectGPUs (provider_env [gpu_a, gpu_b]) = Inr [gpu_a, gpu_b]
             \<and> 1 < length [gpu_a, gpu_b]"
    by (simp add: provider_env_def)
  have c: "gpuLayers (config_of [model_m1]) = None \<or> gpuLayers (config_of [model_m1]) = Some 0"
    by (simp add: config_of_def)
  have i1: "image ((config_of [model_m1])\<lparr>gpuLayers := Some 1\<rparr>) = None"
    by (simp add: config_of_def)
  have i2: "image (config_of [model_m1]) = None"
    by (simp add: config_of_def)
  have r1: "perform (provider_env []) ((config_of [model_m1])\<lparr>gpuLayers := Some 1\<rparr>)
              = ([CollectGPUs], Inl (Error ''no gpu was found.''))"
    by (rule mp [OF conjunct1 [OF perform_gpu_selection] a])
  have "pulled (fst (perform (provider_env [gpu_a, gpu_b]) ((config_of [model_m1])\<lparr>gpuLayers := Some 1\<rparr>)))
          = [case image ((config_of [model_m1])\<lparr>gpuLayers := Some 1\<rparr>) of
               Some i \<Rightarrow> i | None \<Rightarrow> LLAMA_CPP_CUDA]"
    by (rule conjunct2 [OF mp [OF conjunct1 [OF conjunct2 [OF perform_gpu_selection]] b]])
  then have r2: "pulled (fst (perform (provider_env [gpu_a, gpu_b])
                     ((config_of [model_m1])\<lparr>gpuLayers := Some 1\<rparr>))) = [LLAMA_CPP_CUDA]"
    by (simp only: i1 option.case)
  have "pulled (fst (perform (provider_env [gpu_a, gpu_b]) (config_of [model_m1])))
          = [case image (config_of [model_m1]) of Some i \<Rightarrow> i | None \<Rightarrow> LLAMA_CPP_CPU]"
    by (rule conjunct2 [OF conjunct2 [OF mp [OF conjunct2 [OF conjunct2 [OF perform_gpu_selection]] c]]])
  then have r3: "pulled (fst (perform (provider_env [gpu_a, gpu_b]) (config_of [model_m1]))) = [LLAMA_CPP_CPU]"
    by (simp only: i2 option.case)
  from r1 r2 r3 show ?thesis by (intro conjI)
qed

text \<open>
  C4 as it was stated has the GPU image selected whenever more than one GPU is found. A
  configuration that requests a GPU and names an image of its own gets that image pulled,
  not the CUDA one.
\<close>

theorem perform_gpu_image_override_counterexample:
  "gpuLayers ((config_of [model_m1])\<lparr>gpuLayers := Some 1, image := Some ''quay.io/custom:latest''\<rparr>) = Some 1
   \<and> collectGPUs (provider_env [gpu_a, gpu_b]) = Inr [gpu_a, gpu_b]
   \<and> pulled (fst (perform (provider_env [gpu_a, gpu_b])
                 ((config_of [model_m1])\<lparr>gpuLayers := Some 1, image := Some ''quay.io/custom:latest''\<rparr>)))
       = [''quay.io/custom:latest'']
   \<and> ''quay.io/custom:latest'' \<noteq> LLAMA_CPP_CUDA"
  by (simp add: perform_def selectGPU_def provision_def selectImage_def provider_env_def
        config_of_def LLAMA_CPP_CUDA_def Let_def split: sum.splits)




text \<open>
  C6. Building the specification throws when the configuration has no model, when it has
  more than one, and when its single model has no file; with exactly one model that has a
  file it returns a specification.
\<close>

theorem getContainerCreateOptions_model_check:
  "(modelsInfo config = [] \<longrightarrow>
      getContainerCreateOptions env config imageInfo gpu
        = Inl (Error ''Need at least one model info to start an inference server.''))
   \<and> (length (modelsInfo config) > 1 \<longrightarrow>
      getContainerCreateOptions env config imageInfo gpu
        = Inl (Error ''Currently the inference server does not support multiple models serving.''))
   \<and> (modelsInfo config = [m] \<and> model_file m = None \<longrightarrow>
      getContainerCreateOptions env config imageInfo gpu
        = Inl (Error ''The model info file provided is undefined''))
   \<and> (modelsInfo config = [m] \<and> model_file m \<noteq> None \<longrightarrow>
      (\<exists>opts. getContainerCreateOptions env config imageInfo gpu = Inr opts))"
  by (auto simp: getContainerCreateOptions_def Let_def)

theorem getContainerCreateOptions_model_check_witness:
  "getContainerCreateOptions (provider_env []) (config_of []) pulled_image None
     = Inl (Error ''Need at least one model info to start an inference server.'')
   \<and> getContainerCreateOptions (provider_env []) (config_of [model_m1, model_nofile]) pulled_image None
     = Inl (Error ''Currently the inference server does not support multiple models serving.'')
   \<and> getContainerCreateOptions (provider_env []) (config_of [model_nofile]) pulled_image None
     = Inl (Error ''The model info file provided is undefined'')
   \<and> (\<exists>opts. getContainerCreateOptions (provider_env []) (config_of [model_m1]) pulled_image None = Inr opts)"
proof -
  have "modelsInfo (config_of []) = []"
    by (simp add: config_of_def)
  moreover have "length (modelsInfo (config_of [model_m1, model_nofile])) > 1"
    by (simp add: config_of_def)
  moreover have "modelsInfo (config_of [model_nofile]) = [model_nofile] \<and> model_file model_nofile = None"
    by (simp add: config_of_def model_nofile_def)
  moreover have "modelsInfo (config_of [model_m1]) = [model_m1] \<and> model_file model_m1 \<noteq> None"
    by (simp add: config_of_def model_m1_def)
  ultimately show ?thesis
    using getContainerCreateOptions_model_check
            [where config = "config_of []" and env = "provider_env []" and imageInfo = pulled_image and gpu = None]
      getContainerCreateOptions_model_check
            [where config = "config_of [model_m1, model_nofile]" and env = "provider_env []"
               and imageInfo = pulled_image and gpu = None]
      getContainerCreateOptions_model_check
            [where config = "config_of [model_nofile]" and m = model_nofile and env = "provider_env []"
               and imageInfo = pulled_image and gpu = None]
      getContainerCreateOptions_model_check
            [where config = "config_of [model_m1]" and m = model_m1 and env = "provider_env []"
               and imageInfo = pulled_image and gpu = None]
    by blast
qed

section \<open>Properties of the application manager\<close>

subsection \<open>Waiting for a container\<close>

lemma sleep_step:
  "i < n \<Longrightarrow> (slept + TIME_FRAME_MS) + (n - Suc i) * TIME_FRAME_MS = slept + (n - i) * TIME_FRAME_MS"
  by (simp add: Suc_diff_Suc[symmetric] del: Suc_diff_Suc)

text \<open>
  The loop, started at attempt \<open>i\<close>, when attempt \<open>k\<close> is the first whose inspection is
  not "not running": it ends there, after \<open>k - i\<close> sleeps.
\<close>

lemma waitLoop_decided_at:
  "i \<le> k \<Longrightarrow> k < MAX_ATTEMPTS \<Longrightarrow> (\<forall>j. i \<le> j \<and> j < k \<longrightarrow> inspect j = Inr False) \<Longrightarrow>
   inspect k \<noteq> Inr False \<Longrightarrow>
   waitLoop inspect cid i slept
     = ((case inspect k of Inl e \<Rightarrow> Inl e | Inr r \<Rightarrow> Inr ()), slept + (k - i) * TIME_FRAME_MS)"
proof (induction "k - i" arbitrary: i slept)
  case 0
  then have "i = k" by simp
  with 0 show ?case
    by (subst waitLoop.simps) (auto split: sum.splits)
next
  case (Suc d)
  then have lt: "i < k" and f: "inspect i = Inr False" by auto
  have "waitLoop inspect cid (Suc i) (slept + TIME_FRAME_MS)
          = ((case inspect k of Inl e \<Rightarrow> Inl e | Inr r \<Rightarrow> Inr ()),
             (slept + TIME_FRAME_MS) + (k - Suc i) * TIME_FRAME_MS)"
    using Suc by (intro Suc.hyps(1)) auto
  then show ?case
    using lt f Suc.prems(2) by (subst waitLoop.simps) (simp add: sleep_step)
qed

lemma waitLoop_never:
  "i \<le> MAX_ATTEMPTS \<Longrightarrow> (\<forall>j. i \<le> j \<and> j < MAX_ATTEMPTS \<longrightarrow> inspect j = Inr False) \<Longrightarrow>
   waitLoop inspect cid i slept
     = (Inl (Error (''Container '' @ cid @ '' not started in time'')),
        slept + (MAX_ATTEMPTS - i) * TIME_FRAME_MS)"
proof (induction "MAX_ATTEMPTS - i" arbitrary: i slept)
  case 0
  then show ?case by (simp add: waitLoop.simps)
next
  case (Suc d)
  then have lt: "i < MAX_ATTEMPTS" and f: "inspect i = Inr False" by auto
  have "waitLoop inspect cid (Suc i) (slept + TIME_FRAME_MS)
          = (Inl (Error (''Container '' @ cid @ '' not started in time'')),
             (slept + TIME_FRAME_MS) + (MAX_ATTEMPTS - Suc i) * TIME_FRAME_MS)"
    using Suc by (intro Suc.hyps(1)) auto
  then show ?case
    using lt f by (subst waitLoop.simps) (simp add: sleep_step)
qed

lemma waitLoop_bound:
  "i \<le> MAX_ATTEMPTS \<Longrightarrow>
   snd (waitLoop inspect cid i slept) \<le> slept + (MAX_ATTEMPTS - i) * TIME_FRAME_MS"
proof (induction inspect cid i slept rule: waitLoop.induct)
  case (1 inspect cid i slept)
  show ?case
  proof (cases "i < MAX_ATTEMPTS")
    case False
    then show ?thesis by (subst waitLoop.simps) simp
  next
    case lt: True
    show ?thesis
    proof (cases "inspect i")
      case (Inl e)
      with lt show ?thesis by (subst waitLoop.simps) simp
    next
      case (Inr r)
      show ?thesis
      proof (cases r)
        case True
        with lt Inr show ?thesis by (subst waitLoop.simps) simp
      next
        case False
        have "snd (waitLoop inspect cid (Suc i) (slept + TIME_FRAME_MS))
                \<le> (slept + TIME_FRAME_MS) + (MAX_ATTEMPTS - Suc i) * TIME_FRAME_MS"
          using lt Inr False by (intro "1.IH") auto
        then show ?thesis
          using lt Inr False by (subst waitLoop.simps) (simp add: sleep_step)
      qed
    qed
  qed
qed

lemma one_hour: "MAX_ATTEMPTS * TIME_FRAME_MS = 60 * 60 * 1000"
  by (simp add: MAX_ATTEMPTS_def TIME_FRAME_MS_def)

text \<open>
  C7. The wait polls at most \<open>MAX_ATTEMPTS\<close> times with a sleep of 5000 ms after each poll
  that finds the container not running; \<open>MAX_ATTEMPTS\<close> sleeps are one hour. Whatever the
  engine answers, the wait ends having slept no more than that. It returns at the first
  poll that sees the container running, having slept 5000 ms for each poll before it; it
  throws the engine's error at the first poll the engine rejects; and when all
  \<open>MAX_ATTEMPTS\<close> polls find the container not running it throws "Container ... not started
  in time", having slept the full hour.
\<close>

theorem waitContainerIsRunning_bounded:
  "TIME_FRAME_MS = 5000
   \<and> MAX_ATTEMPTS * TIME_FRAME_MS = 60 * 60 * 1000
   \<and> snd (waitContainerIsRunning inspect cid) \<le> MAX_ATTEMPTS * TIME_FRAME_MS
   \<and> (k < MAX_ATTEMPTS \<and> (\<forall>j<k. inspect j = Inr False) \<and> inspect k = Inr True \<longrightarrow>
        waitContainerIsRunning inspect cid = (Inr (), k * TIME_FRAME_MS))
   \<and> (k < MAX_ATTEMPTS \<and> (\<forall>j<k. inspect j = Inr False) \<and> inspect k = Inl e \<longrightarrow>
        waitContainerIsRunning inspect cid = (Inl e, k * TIME_FRAME_MS))
   \<and> ((\<forall>j<MAX_ATTEMPTS. inspect j = Inr False) \<longrightarrow>
        waitContainerIsRunning inspect cid
          = (Inl (Error (''Container '' @ cid @ '' not started in time'')), MAX_ATTEMPTS * TIME_FRAME_MS))"
proof (intro conjI impI)
  show "TIME_FRAME_MS = 5000" by (simp add: TIME_FRAME_MS_def)
  show "MAX_ATTEMPTS * TIME_FRAME_MS = 60 * 60 * 1000" by (rule one_hour)
  show "snd (waitContainerIsRunning inspect cid) \<le> MAX_ATTEMPTS * TIME_FRAME_MS"
    using waitLoop_bound [of 0 inspect cid 0] by (simp add: waitContainerIsRunning_def)
next
  assume a: "k < MAX_ATTEMPTS \<and> (\<forall>j<k. inspect j = Inr False) \<and> inspect k = Inr True"
  then show "waitContainerIsRunning inspect cid = (Inr (), k * TIME_FRAME_MS)"
    using waitLoop_decided_at [of 0 k inspect cid 0] by (simp add: waitContainerIsRunning_def)
next
  assume a: "k < MAX_ATTEMPTS \<and> (\<forall>j<k. inspect j = Inr False) \<and> inspect k = Inl e"
  then show "waitContainerIsRunning inspect cid = (Inl e, k * TIME_FRAME_MS)"
    using waitLoop_decided_at [of 0 k inspect cid 0] by (simp add: waitContainerIsRunning_def)
next
  assume a: "\<forall>j<MAX_ATTEMPTS. inspect j = Inr False"
  then show "waitContainerIsRunning inspect cid
               = (Inl (Error (''Container '' @ cid @ '' not started in time'')), MAX_ATTEMPTS * TIME_FRAME_MS)"
    using waitLoop_never [of 0 inspect cid 0] by (simp add: waitContainerIsRunning_def)
qed

text \<open>
  A container seen running at the fourth poll, an engine that rejects the third
  inspection, and a container that never runs.
\<close>

theorem waitContainerIsRunning_bounded_witness:
  "waitContainerIsRunning (\<lambda>j. Inr (3 \<le> j)) ''c1'' = (Inr (), 15000)
   \<and> waitContainerIsRunning (\<lambda>j. if j = 2 then Inl (Error ''no such container'') else Inr False) ''c1''
       = (Inl (Error ''no such container''), 10000)
   \<and> waitContainerIsRunning (\<lambda>j. Inr False) ''c1''
       = (Inl (Error ''Container c1 not started in time''), 3600000)"
proof -
  have a: "(3::nat) < MAX_ATTEMPTS \<and> (\<forall>j<3. (Inr (3 \<le> (j::nat)) :: error + bool) = Inr False)
             \<and> (Inr (3 \<le> (3::nat)) :: error + bool) = Inr True"
    by (simp add: MAX_ATTEMPTS_def TIME_FRAME_MS_def)
  have b: "(2::nat) < MAX_ATTEMPTS
             \<and> (\<forall>j<2. (if (j::nat) = 2 then Inl (Error ''no such container'') else (Inr False :: error + bool)) = Inr False)
             \<and> (if (2::nat) = 2 then Inl (Error ''no such container'') else (Inr False :: error + bool))
                 = Inl (Error ''no such container'')"
    by (simp add: MAX_ATTEMPTS_def TIME_FRAME_MS_def)
  have c: "\<forall>j<MAX_ATTEMPTS. (Inr False :: error + bool) = Inr False"
    by simp
  note T1 = waitContainerIsRunning_bounded [where inspect = "\<lambda>j. Inr (3 \<le> j)" and k = 3 and cid = "''c1''"]
  note T2 = waitContainerIsRunning_bounded
              [where inspect = "\<lambda>j. if j = 2 then Inl (Error ''no such container'') else Inr False"
                 and k = 2 and e = "Error ''no such container''" and cid = "''c1''"]
  note T3 = waitContainerIsRunning_bounded [where inspect = "\<lambda>j. Inr False" and cid = "''c1''"]
  have r1: "waitContainerIsRunning (\<lambda>j. Inr (3 \<le> j)) ''c1'' = (Inr (), 3 * TIME_FRAME_MS)"
    by (rule mp [OF conjunct1 [OF conjunct2 [OF conjunct2 [OF conjunct2 [OF T1]]]] a])
  have r2: "waitContainerIsRunning (\<lambda>j. if j = 2 then Inl (Error ''no such container'') else Inr False) ''c1''
              = (Inl (Error ''no such container''), 2 * TIME_FRAME_MS)"
    by (rule mp [OF conjunct1 [OF conjunct2 [OF conjunct2 [OF conjunct2 [OF conjunct2 [OF T2]]]]] b])
  have r3: "waitContainerIsRunning (\<lambda>j. Inr False) ''c1''
              = (Inl (Error (''Container '' @ ''c1'' @ '' not started in time'')), MAX_ATTEMPTS * TIME_FRAME_MS)"
    by (rule mp [OF conjunct2 [OF conjunct2 [OF conjunct2 [OF conjunct2 [OF conjunct2 [OF T3]]]]] c])
  from r1 r2 r3 show ?thesis
    by (simp add: MAX_ATTEMPTS_def TIME_FRAME_MS_def)
qed

subsection \<open>Health reconciliation\<close>

















subsection \<open>Stopping an application whose pod has exited\<close>

text \<open>
  C9. When the pod found for the key has status \<^verbatim>\<open>Exited\<close>, \<^verbatim>\<open>stopApplication\<close> returns
  that pod and the only thing it has changed is the ledger, from which the tasks bearing
  the key's labels are gone: no call was made to the engine, no task was created (the
  counter behind the ids has not moved, so there is no "Stopping AI App" task), and the
  registry, the protect set and the notification count are as before.
\<close>

theorem stopApplication_exited:
  assumes "getAllPods (engine w) (calls s) = Inr pods"
    and "findPodByLabelsValues [(LABEL_RECIPE_ID, recipeId), (LABEL_MODEL_ID, modelId)] pods = Some appPod"
    and "pod_Status appPod = ''Exited''"
    and "stopApplication w recipeId modelId s = (r, s')"
  shows "r = Inr appPod
    \<and> s' = s\<lparr>tasks := filter (\<lambda>t. \<not> taskBears (keyLabels recipeId modelId) t) (tasks s)\<rparr>
    \<and> calls s' = calls s
    \<and> taskCounter s' = taskCounter s
    \<and> applications s' = applications s
    \<and> (\<forall>t\<in>set (tasks s'). t \<in> set (tasks s) \<and> \<not> taskBears (keyLabels recipeId modelId) t)"
proof -
  let ?s1 = "clearTasks recipeId modelId s"
  have c: "calls ?s1 = calls s"
    by (simp add: clearTasks_def deleteByLabels_def)
  have "getApplicationPod w recipeId modelId ?s1 = Inr appPod"
    using assms(1,2) by (simp add: getApplicationPod_def findPod_def c)
  then have "stopApplication w recipeId modelId s = (Inr appPod, ?s1)"
    using assms(3) by (simp add: stopApplication_def Let_def)
  with assms(4) have "r = Inr appPod" and "s' = ?s1" by simp_all
  then show ?thesis
    by (simp add: clearTasks_def deleteByLabels_def)
qed

text \<open>
  An engine holding the exited pod of (r1, m1), and a ledger with one task of that key and
  one of another.
\<close>

theorem stopApplication_exited_witness:
  "stopApplication (example_world [pod_exited] (\<lambda>p. Inr none) Map.empty) ''r1'' ''m1''
       (manager_of [task_of 3 ''AI App is running'' success (keyLabels ''r1'' ''m1''),
                    task_of 4 ''AI App is running'' success (keyLabels ''r2'' ''m2'')])
     = (Inr pod_exited,
        (manager_of [task_of 3 ''AI App is running'' success (keyLabels ''r1'' ''m1''),
                     task_of 4 ''AI App is running'' success (keyLabels ''r2'' ''m2'')])
          \<lparr>tasks := [task_of 4 ''AI App is running'' success (keyLabels ''r2'' ''m2'')]\<rparr>)"
proof -
  let ?w = "example_world [pod_exited] (\<lambda>p. Inr none) Map.empty"
  let ?s = "manager_of [task_of 3 ''AI App is running'' success (keyLabels ''r1'' ''m1''),
                        task_of 4 ''AI App is running'' success (keyLabels ''r2'' ''m2'')]"
  have a: "getAllPods (engine ?w) (calls ?s) = Inr [pod_exited]"
    by (simp add: example_world_def example_engine_def)
  have b: "findPodByLabelsValues [(LABEL_RECIPE_ID, ''r1''), (LABEL_MODEL_ID, ''m1'')] [pod_exited]
             = Some pod_exited"
    by (simp add: findPodByLabelsValues_def matchLabels_def pod_exited_def pod_of_def
          LABEL_RECIPE_ID_def LABEL_MODEL_ID_def)
  have c: "pod_Status pod_exited = ''Exited''"
    by (simp add: pod_exited_def pod_of_def)
  have f: "filter (\<lambda>t. \<not> taskBears (keyLabels ''r1'' ''m1'') t) (tasks ?s)
             = [task_of 4 ''AI App is running'' success (keyLabels ''r2'' ''m2'')]"
    by (simp add: manager_of_def taskBears_def matchLabels_def keyLabels_def task_of_def)
  have "fst (stopApplication ?w ''r1'' ''m1'' ?s) = Inr pod_exited
      \<and> snd (stopApplication ?w ''r1'' ''m1'' ?s)
          = ?s\<lparr>tasks := filter (\<lambda>t. \<not> taskBears (keyLabels ''r1'' ''m1'') t) (tasks ?s)\<rparr>"
    using stopApplication_exited [OF a b c prod.collapse [symmetric]] by blast
  then show ?thesis
    by (simp add: f prod_eq_iff)
qed

subsection \<open>Creating the pod\<close>

lemma find_None_list_all: "(find P xs = None) = list_all (\<lambda>x. \<not> P x) xs"
  by (induction xs) auto

text \<open>
  C10. When every image is a model service, \<^verbatim>\<open>createPod\<close> throws "no sample app found"
  and leaves the manager's state, the record of calls included, as it was: the engine was
  not asked to create a pod. Otherwise there is a first image that is not a model service,
  the next call made is the pod creation, and the pod's name is the random name drawn for
  \<^verbatim>\<open>pod-\<close> followed by that image's application name.
\<close>

theorem createPod_sample_app:
  "(list_all modelService images \<longrightarrow>
      createPod w recipe model images s = (Inl (Error ''no sample app found''), s))
   \<and> (\<not> list_all modelService images \<longrightarrow>
      (\<exists>sample opts. find (\<lambda>img. \<not> modelService img) images = Some sample
         \<and> calls (snd (createPod w recipe model images s)) = calls s @ [CreatePod opts]
         \<and> pc_name opts = getRandomName w (''pod-'' @ appName sample)))"
proof (intro conjI impI)
  assume "list_all modelService images"
  then have "find (\<lambda>img. \<not> modelService img) images = None"
    by (simp add: find_None_list_all)
  then show "createPod w recipe model images s = (Inl (Error ''no sample app found''), s)"
    by (simp add: createPod_def)
next
  assume "\<not> list_all modelService images"
  then have "find (\<lambda>img. \<not> modelService img) images \<noteq> None"
    by (simp add: find_None_list_all)
  then obtain sample where f: "find (\<lambda>img. \<not> modelService img) images = Some sample"
    by auto
  let ?opts = "\<lparr>pc_name = getRandomName w (''pod-'' @ appName sample),
                 portmappings = portMappingsOf w images,
                 pc_labels = podLabels recipe model images (portMappingsOf w images)\<rparr>"
  have "calls (snd (createPod w recipe model images s)) = calls s @ [CreatePod ?opts]"
    by (simp add: createPod_def f Let_def record_call_def split: sum.splits prod.splits)
  then show "\<exists>sample opts. find (\<lambda>img. \<not> modelService img) images = Some sample
         \<and> calls (snd (createPod w recipe model images s)) = calls s @ [CreatePod opts]
         \<and> pc_name opts = getRandomName w (''pod-'' @ appName sample)"
    using f by (intro exI [of _ sample] exI [of _ ?opts]) simp
qed

theorem createPod_sample_app_witness:
  "createPod (example_world [] (\<lambda>p. Inr none) Map.empty) recipe_r1 model_m1 [image_model] (manager_of [])
     = (Inl (Error ''no sample app found''), manager_of [])
   \<and> (\<exists>opts. calls (snd (createPod (example_world [] (\<lambda>p. Inr none) Map.empty) recipe_r1 model_m1
                            [image_model, image_app, image_worker] (manager_of [])))
               = [CreatePod opts]
            \<and> pc_name opts = ''pod-chat-1'')"
proof -
  let ?w = "example_world [] (\<lambda>p. Inr none) Map.empty"
  have a: "list_all modelService [image_model]"
    by (simp add: image_model_def)
  have b: "\<not> list_all modelService [image_model, image_app, image_worker]"
    by (simp add: image_model_def image_app_def)
  have f: "find (\<lambda>img. \<not> modelService img) [image_model, image_app, image_worker] = Some image_app"
    by (simp add: image_model_def image_app_def)
  have n: "getRandomName ?w (''pod-'' @ appName image_app) = ''pod-chat-1''"
    by (simp add: example_world_def image_app_def)
  have c0: "calls (manager_of []) = []"
    by (simp add: manager_of_def)
  have r1: "createPod ?w recipe_r1 model_m1 [image_model] (manager_of [])
              = (Inl (Error ''no sample app found''), manager_of [])"
    by (rule mp [OF conjunct1 [OF createPod_sample_app] a])
  have "\<exists>sample opts. find (\<lambda>img. \<not> modelService img) [image_model, image_app, image_worker] = Some sample
         \<and> calls (snd (createPod ?w recipe_r1 model_m1 [image_model, image_app, image_worker] (manager_of [])))
             = calls (manager_of []) @ [CreatePod opts]
         \<and> pc_name opts = getRandomName ?w (''pod-'' @ appName sample)"
    by (rule mp [OF conjunct2 [OF createPod_sample_app] b])
  then have r2: "\<exists>opts. calls (snd (createPod ?w recipe_r1 model_m1 [image_model, image_app, image_worker]
                                      (manager_of [])))
                          = [CreatePod opts]
                       \<and> pc_name opts = ''pod-chat-1''"
    using f n c0 by auto
  from r1 r2 show ?thesis by (rule conjI)
qed

subsection \<open>Attaching the containers\<close>

lemma attachAll_calls:
  "calls (snd (attachAll w engineId optss s)) = calls s @ map (CreateContainerInPod engineId) optss"
proof (induction optss arbitrary: s)
  case Nil
  show ?case by simp
next
  case (Cons opts rest)
  obtain r s1 where a: "attachAll w engineId rest (record_call (CreateContainerInPod engineId opts) s) = (r, s1)"
    by (cases "attachAll w engineId rest (record_call (CreateContainerInPod engineId opts) s)") auto
  have "calls s1 = calls (record_call (CreateContainerInPod engineId opts) s)
                     @ map (CreateContainerInPod engineId) rest"
    using Cons.IH [of "record_call (CreateContainerInPod engineId opts) s"] by (simp add: a)
  then have c: "calls s1 = calls s @ CreateContainerInPod engineId opts # map (CreateContainerInPod engineId) rest"
    by (simp add: record_call_def)
  show ?case
    by (cases "createContainer_result (engine w) (calls s) engineId opts") (simp_all add: a c)
qed

text \<open>
  C2, as the code has it. One \<^verbatim>\<open>createContainer\<close> call is made per image, in the order
  of the images, with the options built for that image. For a model-service image they
  hold the bind mount of the model path at \<^verbatim>\<open>/<file name>\<close> and the environment
  \<^verbatim>\<open>MODEL_PATH\<close> followed by the variables derived from the model. For any other image
  they hold no host configuration, and the environment is the single variable
  \<^verbatim>\<open>MODEL_ENDPOINT=http://localhost:<port>\<close>, with the first port that the first
  model-service image declares, when such an image exists and declares a port, and is
  empty otherwise. The health check is there exactly when the image declares a port, and
  then probes the image's first declared port.
\<close>

theorem containerOptions_by_role:
  assumes "opts = containerOptions w podInfo images modelInfo modelPath img"
  shows "(modelService img \<longrightarrow>
        HostConfig opts
          = Some \<lparr>AutoRemove = None, Devices = None,
                  Mounts = Some [\<lparr>Target = ''/'' @ path_basename w modelPath, Source = modelPath,
                                   Type = ''bind'',
                                   Mode = (if isQEMUMachine w then None else Some ''Z'')\<rparr>],
                  DeviceRequests = None, SecurityOpt = None, PortBindings = None\<rparr>
      \<and> Env opts = (''MODEL_PATH=/'' @ path_basename w modelPath) # modelProperties w modelInfo)
    \<and> (\<not> modelService img \<longrightarrow>
        HostConfig opts = None
      \<and> Env opts = (case find modelService images of
                      None \<Rightarrow> []
                    | Some ms \<Rightarrow> if ports ms = [] then []
                                else [''MODEL_ENDPOINT=http://localhost:'' @ hd (ports ms)]))
    \<and> ((HealthCheck opts \<noteq> None) = (ports img \<noteq> []))
    \<and> (ports img \<noteq> [] \<longrightarrow>
        HealthCheck opts
          = Some \<lparr>Test = [''CMD-SHELL'', ''curl -s localhost:'' @ hd (ports img) @ '' > /dev/null''],
                  Interval = 5000000000, Retries = 20, Timeout = Some 2000000000\<rparr>)
    \<and> calls (snd (createContainerAndAttachToPod w podInfo images modelInfo modelPath s))
        = calls s @ map (\<lambda>i. CreateContainerInPod (pod_engineId podInfo)
                                (containerOptions w podInfo images modelInfo modelPath i)) images"
proof -
  have c: "calls (snd (createContainerAndAttachToPod w podInfo images modelInfo modelPath s))
        = calls s @ map (\<lambda>i. CreateContainerInPod (pod_engineId podInfo)
                                (containerOptions w podInfo images modelInfo modelPath i)) images"
    by (simp add: createContainerAndAttachToPod_def attachAll_calls comp_def)
  have m: "modelService img \<Longrightarrow>
        HostConfig opts
          = Some \<lparr>AutoRemove = None, Devices = None,
                  Mounts = Some [\<lparr>Target = ''/'' @ path_basename w modelPath, Source = modelPath,
                                   Type = ''bind'',
                                   Mode = (if isQEMUMachine w then None else Some ''Z'')\<rparr>],
                  DeviceRequests = None, SecurityOpt = None, PortBindings = None\<rparr>
      \<and> Env opts = (''MODEL_PATH=/'' @ path_basename w modelPath) # modelProperties w modelInfo"
    by (simp add: assms containerOptions_def Let_def)
  have a: "\<not> modelService img \<Longrightarrow>
        HostConfig opts = None
      \<and> Env opts = (case find modelService images of
                      None \<Rightarrow> []
                    | Some ms \<Rightarrow> if ports ms = [] then []
                                else [''MODEL_ENDPOINT=http://localhost:'' @ hd (ports ms)])"
    by (simp add: assms containerOptions_def Let_def split: option.splits)
  have h: "(HealthCheck opts \<noteq> None) = (ports img \<noteq> [])"
    by (simp add: assms containerOptions_def Let_def)
  have h2: "ports img \<noteq> [] \<Longrightarrow>
        HealthCheck opts
          = Some \<lparr>Test = [''CMD-SHELL'', ''curl -s localhost:'' @ hd (ports img) @ '' > /dev/null''],
                  Interval = 5000000000, Retries = 20, Timeout = Some 2000000000\<rparr>"
    by (simp add: assms containerOptions_def Let_def SECOND_def)
  from c m a h h2 show ?thesis by blast
qed

text \<open>
  A pod of three images: the model service on port 8000, an application on port 8501 and
  a job that declares no port.
\<close>

theorem containerOptions_by_role_witness:
  "Env (containerOptions (example_world [] (\<lambda>p. Inr none) Map.empty) pod_r1m1
          [image_model, image_app, image_worker] model_m1 ''/home/user/models/model.gguf'' image_model)
     = [''MODEL_PATH=/model.gguf'']
   \<and> Env (containerOptions (example_world [] (\<lambda>p. Inr none) Map.empty) pod_r1m1
          [image_model, image_app, image_worker] model_m1 ''/home/user/models/model.gguf'' image_app)
     = [''MODEL_ENDPOINT=http://localhost:8000'']
   \<and> HealthCheck (containerOptions (example_world [] (\<lambda>p. Inr none) Map.empty) pod_r1m1
          [image_model, image_app, image_worker] model_m1 ''/home/user/models/model.gguf'' image_app)
     = Some \<lparr>Test = [''CMD-SHELL'', ''curl -s localhost:8501 > /dev/null''],
             Interval = 5000000000, Retries = 20, Timeout = Some 2000000000\<rparr>
   \<and> HealthCheck (containerOptions (example_world [] (\<lambda>p. Inr none) Map.empty) pod_r1m1
          [image_model, image_app, image_worker] model_m1 ''/home/user/models/model.gguf'' image_worker)
     = None"
proof -
  let ?w = "example_world [] (\<lambda>p. Inr none) Map.empty"
  let ?o = "containerOptions ?w pod_r1m1 [image_model, image_app, image_worker] model_m1
              ''/home/user/models/model.gguf''"
  have ms: "modelService image_model" "\<not> modelService image_app"
    by (simp_all add: image_model_def image_app_def)
  have ps: "ports image_app \<noteq> []" "ports image_worker = []" "hd (ports image_app) = ''8501''"
    by (simp_all add: image_app_def image_worker_def)
  have f: "find modelService [image_model, image_app, image_worker] = Some image_model"
    by (simp add: image_model_def)
  have pm: "ports image_model = [''8000'']"
    by (simp add: image_model_def)
  have bn: "path_basename ?w ''/home/user/models/model.gguf'' = ''model.gguf''"
    "modelProperties ?w model_m1 = []"
    by (simp_all add: example_world_def)
  note T1 = containerOptions_by_role [OF refl, where w = ?w and podInfo = pod_r1m1
              and images = "[image_model, image_app, image_worker]" and modelInfo = model_m1
              and modelPath = "''/home/user/models/model.gguf''" and img = image_model
              and s = "manager_of []"]
  note T2 = containerOptions_by_role [OF refl, where w = ?w and podInfo = pod_r1m1
              and images = "[image_model, image_app, image_worker]" and modelInfo = model_m1
              and modelPath = "''/home/user/models/model.gguf''" and img = image_app
              and s = "manager_of []"]
  note T3 = containerOptions_by_role [OF refl, where w = ?w and podInfo = pod_r1m1
              and images = "[image_model, image_app, image_worker]" and modelInfo = model_m1
              and modelPath = "''/home/user/models/model.gguf''" and img = image_worker
              and s = "manager_of []"]
  have r1: "Env (?o image_model) = [''MODEL_PATH=/model.gguf'']"
    using conjunct2 [OF mp [OF conjunct1 [OF T1] ms(1)]] by (simp add: bn)
  have r2: "Env (?o image_app) = [''MODEL_ENDPOINT=http://localhost:8000'']"
    using conjunct2 [OF mp [OF conjunct1 [OF conjunct2 [OF T2]] ms(2)]] unfolding f by (simp add: pm)
  have r3: "HealthCheck (?o image_app)
              = Some \<lparr>Test = [''CMD-SHELL'', ''curl -s localhost:8501 > /dev/null''],
                      Interval = 5000000000, Retries = 20, Timeout = Some 2000000000\<rparr>"
    using mp [OF conjunct1 [OF conjunct2 [OF conjunct2 [OF conjunct2 [OF T2]]]] ps(1)]
    by (simp add: ps(3))
  have r4: "HealthCheck (?o image_worker) = None"
    using conjunct1 [OF conjunct2 [OF conjunct2 [OF T3]]] by (simp add: ps(2))
  from r1 r2 r3 r4 show ?thesis by (intro conjI)
qed

text \<open>
  C2 as it was stated gives every application image a \<^verbatim>\<open>MODEL_ENDPOINT\<close> at the host
  port resolved for the model service. An application image built without a model
  service beside it gets no variable at all; and when the allocator resolves the model
  service's port 8000 to the free host port 9000, the pod maps 8000 to 9000 and the
  application is still pointed at port 8000.
\<close>

theorem containerOptions_endpoint_counterexample:
  "Env (containerOptions (example_world [] (\<lambda>p. Inr none) Map.empty) pod_r1m1
          [image_app] model_m1 ''/home/user/models/model.gguf'' image_app) = []
   \<and> portMappingsOf (example_world [] (\<lambda>p. Inr none) [''8000'' \<mapsto> ''9000'']) [image_model, image_app]
       = [\<lparr>container_port = Some 8000, host_port = Some 9000, host_ip = [], protocol = [], range = 1\<rparr>]
   \<and> Env (containerOptions (example_world [] (\<lambda>p. Inr none) [''8000'' \<mapsto> ''9000'']) pod_r1m1
          [image_model, image_app] model_m1 ''/home/user/models/model.gguf'' image_app)
       = [''MODEL_ENDPOINT=http://localhost:8000'']"
proof -
  have p1: "parseInt ''8000'' = Some 8000" "parseInt ''9000'' = Some 9000"
    by (simp_all add: parseInt_def is_space_def is_digit_def digit_value_def digits_value_def Let_def)
  have a: "Env (containerOptions (example_world [] (\<lambda>p. Inr none) Map.empty) pod_r1m1
          [image_app] model_m1 ''/home/user/models/model.gguf'' image_app) = []"
    by (simp add: containerOptions_def Let_def image_app_def)
  have b: "portMappingsOf (example_world [] (\<lambda>p. Inr none) [''8000'' \<mapsto> ''9000'']) [image_model, image_app]
       = [\<lparr>container_port = Some 8000, host_port = Some 9000, host_ip = [], protocol = [], range = 1\<rparr>]"
    by (simp add: portMappingsOf_def portMappingOf_def example_world_def image_model_def image_app_def p1)
  have c: "Env (containerOptions (example_world [] (\<lambda>p. Inr none) [''8000'' \<mapsto> ''9000'']) pod_r1m1
          [image_model, image_app] model_m1 ''/home/user/models/model.gguf'' image_app)
       = [''MODEL_ENDPOINT=http://localhost:8000'']"
    by (simp add: containerOptions_def Let_def image_app_def image_model_def)
  from a b c show ?thesis by (intro conjI)
qed

subsection \<open>The pull pipeline and the task ledger\<close>

lemma newerThan_frame:
  "tasks s1 = tasks s \<Longrightarrow> taskCounter s1 = taskCounter s \<Longrightarrow> newerThan c0 K s1 = newerThan c0 K s"
  by (simp add: newerThan_def)

lemma newerThan_record_call: "newerThan c0 K (record_call c s) = newerThan c0 K s"
  by (simp add: newerThan_def record_call_def)

lemma newerThan_createTask:
  "newerThan c0 K s \<Longrightarrow> createTask n st l s = (t, s1) \<Longrightarrow> newerThan c0 K s1 \<and> c0 < task_id t"
  by (auto simp: newerThan_def createTask_def Let_def)

lemma newerThan_updateTask:
  "newerThan c0 K s \<Longrightarrow> c0 < task_id t \<Longrightarrow> newerThan c0 K (updateTask t s)"
  by (auto simp: newerThan_def updateTask_def)

lemma newerThan_deleteByLabels:
  "newerThan c0 K s \<Longrightarrow> newerThan c0 K (deleteByLabels L s)"
  by (auto simp: newerThan_def deleteByLabels_def)

lemma checkPodsHealth_frame:
  "tasks (snd (checkPodsHealth w s)) = tasks s \<and> taskCounter (snd (checkPodsHealth w s)) = taskCounter s"
  by (simp add: checkPodsHealth_def notify_def split: sum.splits prod.splits)

lemma newerThan_checkPodsHealth:
  "newerThan c0 K (snd (checkPodsHealth w s)) = newerThan c0 K s"
  by (rule newerThan_frame) (simp_all add: checkPodsHealth_frame)

lemma attachAll_frame:
  "tasks (snd (attachAll w engineId optss s)) = tasks s
     \<and> taskCounter (snd (attachAll w engineId optss s)) = taskCounter s"
proof (induction optss arbitrary: s)
  case Nil
  show ?case by simp
next
  case (Cons opts rest)
  obtain r s1 where a: "attachAll w engineId rest (record_call (CreateContainerInPod engineId opts) s) = (r, s1)"
    by (cases "attachAll w engineId rest (record_call (CreateContainerInPod engineId opts) s)") auto
  have "tasks s1 = tasks (record_call (CreateContainerInPod engineId opts) s)
          \<and> taskCounter s1 = taskCounter (record_call (CreateContainerInPod engineId opts) s)"
    using Cons.IH [of "record_call (CreateContainerInPod engineId opts) s"] by (simp add: a)
  then have c: "tasks s1 = tasks s \<and> taskCounter s1 = taskCounter s"
    by (simp add: record_call_def)
  show ?case
    by (cases "createContainer_result (engine w) (calls s) engineId opts") (simp_all add: a c)
qed

lemma newerThan_attach:
  "newerThan c0 K (snd (createContainerAndAttachToPod w podInfo images modelInfo modelPath s))
     = newerThan c0 K s"
  by (rule newerThan_frame) (simp_all add: createContainerAndAttachToPod_def attachAll_frame)

lemma createPod_frame:
  "tasks (snd (createPod w recipe model images s)) = tasks s
     \<and> taskCounter (snd (createPod w recipe model images s)) = taskCounter s"
  by (simp add: createPod_def Let_def record_call_def split: option.splits sum.splits prod.splits)

lemma newerThan_createPod:
  "newerThan c0 K (snd (createPod w recipe model images s)) = newerThan c0 K s"
  by (rule newerThan_frame) (simp_all add: createPod_frame)

lemma newerThan_doCheckout:
  assumes "newerThan c0 K s"
  shows "newerThan c0 K (snd (doCheckout w gitCloneInfo lbls s))"
proof -
  obtain t s1 where ct: "createTask ''Checking out repository'' loading
                           (Some (AList.update ''git'' ''checkout'' lbls)) s = (t, s1)"
    by (cases "createTask ''Checking out repository'' loading
                 (Some (AList.update ''git'' ''checkout'' lbls)) s") auto
  from newerThan_createTask [OF assms ct]
  have i: "newerThan c0 K (record_call (ProcessCheckout gitCloneInfo) s1)" and n: "c0 < task_id t"
    by (simp_all add: newerThan_record_call)
  show ?thesis
    by (cases "processCheckout w gitCloneInfo")
       (simp_all add: doCheckout_def ct Let_def newerThan_updateTask [OF i] n)
qed

lemma newerThan_cloneApplication:
  assumes "newerThan c0 K s"
  shows "newerThan c0 K (snd (cloneApplication w recipe lbls s))"
proof -
  let ?d = "doCheckout w \<lparr>git_repository = repository recipe, git_ref = ref recipe,
                            targetDirectory = path_join w [appUserDirectory w, recipe_id recipe]\<rparr>
              (AList.update ''recipe-id'' (recipe_id recipe) (case lbls of None \<Rightarrow> [] | Some l \<Rightarrow> l)) s"
  have i: "newerThan c0 K (snd ?d)"
    using assms by (rule newerThan_doCheckout)
  obtain r s1 where d: "?d = (r, s1)" by (cases ?d) auto
  with i have "newerThan c0 K s1" by simp
  then show ?thesis
    by (cases r) (simp_all add: cloneApplication_def Let_def d newerThan_record_call)
qed

lemma newerThan_getConfigAndFilterContainers:
  assumes "newerThan c0 K s"
  shows "newerThan c0 K (snd (getConfigAndFilterContainers w recipeBaseDir localFolder lbls s))"
proof -
  obtain t s1 where ct: "createTask ''Loading configuration'' loading lbls s = (t, s1)"
    by (cases "createTask ''Loading configuration'' loading lbls s") auto
  from newerThan_createTask [OF assms ct]
  have i: "newerThan c0 K s1" and n: "c0 < task_id t" by simp_all
  show ?thesis
    by (cases "getConfiguration w recipeBaseDir localFolder")
       (simp_all add: getConfigAndFilterContainers_def ct Let_def newerThan_updateTask [OF i] n)
qed

lemma newerThan_createApplicationPod:
  assumes "newerThan c0 K s"
  shows "newerThan c0 K (snd (createApplicationPod w recipe model images modelPath lbls s))"
proof -
  obtain t s1 where ct: "createTask ''Creating AI App'' loading lbls s = (t, s1)"
    by (cases "createTask ''Creating AI App'' loading lbls s") auto
  from newerThan_createTask [OF assms ct]
  have i: "newerThan c0 K s1" and n: "c0 < task_id t" by simp_all
  obtain r s2 where cp: "createPod w recipe model images s1 = (r, s2)"
    by (cases "createPod w recipe model images s1") auto
  have i2: "newerThan c0 K s2"
    using newerThan_createPod [of c0 K w recipe model images s1] i by (simp add: cp)
  show ?thesis
  proof (cases r)
    case (Inl e)
    then show ?thesis
      by (simp add: createApplicationPod_def ct cp newerThan_updateTask [OF i2] n)
  next
    case (Inr podInfo)
    let ?t1 = "t\<lparr>task_labels := Some (AList.update ''pod-id'' (pod_Id podInfo)
                                      (case task_labels t of None \<Rightarrow> [] | Some l \<Rightarrow> l))\<rparr>"
    have n1: "c0 < task_id ?t1" using n by simp
    have i3: "newerThan c0 K (updateTask ?t1 s2)"
      using i2 n1 by (rule newerThan_updateTask)
    obtain r4 s4 where at: "createContainerAndAttachToPod w podInfo images model modelPath (updateTask ?t1 s2)
                              = (r4, s4)"
      by (cases "createContainerAndAttachToPod w podInfo images model modelPath (updateTask ?t1 s2)") auto
    have i4: "newerThan c0 K s4"
      using newerThan_attach [of c0 K w podInfo images model modelPath "updateTask ?t1 s2"] i3
      by (simp add: at)
    show ?thesis
      by (cases r4)
         (simp_all add: createApplicationPod_def ct cp Inr Let_def at newerThan_updateTask [OF i4] n)
  qed
qed

lemma newerThan_stopApplication:
  assumes "newerThan c0 K s"
  shows "newerThan c0 K (snd (stopApplication w recipeId modelId s))"
proof -
  let ?s1 = "clearTasks recipeId modelId s"
  have i1: "newerThan c0 K ?s1"
    using assms by (simp add: clearTasks_def newerThan_deleteByLabels)
  show ?thesis
  proof (cases "getApplicationPod w recipeId modelId ?s1")
    case (Inl e)
    then show ?thesis by (simp add: stopApplication_def Let_def i1)
  next
    case (Inr appPod)
    show ?thesis
    proof (cases "pod_Status appPod = ''Exited''")
      case True
      with Inr show ?thesis by (simp add: stopApplication_def Let_def i1)
    next
      case False
      obtain t s2 where ct: "createTask ''Stopping AI App'' loading (Some (keyLabels recipeId modelId)) ?s1
                               = (t, s2)"
        by (cases "createTask ''Stopping AI App'' loading (Some (keyLabels recipeId modelId)) ?s1") auto
      from newerThan_createTask [OF i1 ct]
      have i3: "newerThan c0 K (record_call (StopPod (pod_engineId appPod) (pod_Id appPod)) s2)"
        and n: "c0 < task_id t"
        by (simp_all add: newerThan_record_call)
      let ?t1 = "case stopPod (engine w) (calls s2) (pod_engineId appPod) (pod_Id appPod) of
                   None \<Rightarrow> t\<lparr>task_state := success, task_name := ''AI App Stopped''\<rparr>
                 | Some err \<Rightarrow>
                     t\<lparr>task_error := Some (''Error removing the pod.: '' @ String_of_error err),
                        task_name := ''Error stopping AI App''\<rparr>"
      have n1: "c0 < task_id ?t1" using n by (simp split: option.splits)
      let ?s4 = "updateTask ?t1 (record_call (StopPod (pod_engineId appPod) (pod_Id appPod)) s2)"
      have i4: "newerThan c0 K ?s4" using i3 n1 by (rule newerThan_updateTask)
      obtain r5 s5 where ch: "checkPodsHealth w ?s4 = (r5, s5)"
        by (cases "checkPodsHealth w ?s4") auto
      have i5: "newerThan c0 K s5"
        using newerThan_checkPodsHealth [of c0 K w ?s4] i4 by (simp add: ch)
      show ?thesis
        using Inr False
        by (cases r5) (simp_all add: stopApplication_def Let_def ct ch i5)
    qed
  qed
qed

lemma newerThan_removeApplication:
  assumes "newerThan c0 K s"
  shows "newerThan c0 K (snd (removeApplication w recipeId modelId s))"
proof -
  obtain r s1 where st: "stopApplication w recipeId modelId s = (r, s1)"
    by (cases "stopApplication w recipeId modelId s") auto
  have i1: "newerThan c0 K s1"
    using newerThan_stopApplication [OF assms, of w recipeId modelId] by (simp add: st)
  show ?thesis
  proof (cases r)
    case (Inl e)
    then show ?thesis by (simp add: removeApplication_def st i1)
  next
    case (Inr appPod)
    obtain t s2 where ct: "createTask ''Removing AI App'' loading (Some (keyLabels recipeId modelId)) s1
                             = (t, s2)"
      by (cases "createTask ''Removing AI App'' loading (Some (keyLabels recipeId modelId)) s1") auto
    from newerThan_createTask [OF i1 ct]
    have i2: "newerThan c0 K s2" and n: "c0 < task_id t" by simp_all
    let ?s3 = "s2\<lparr>protectTasks := List.insert (pod_Id appPod) (protectTasks s2)\<rparr>"
    have i4: "newerThan c0 K (record_call (RemovePod (pod_engineId appPod) (pod_Id appPod)) ?s3)"
      using i2 by (simp add: newerThan_def record_call_def)
    let ?t1 = "case removePod (engine w) (calls ?s3) (pod_engineId appPod) (pod_Id appPod) of
                 None \<Rightarrow> t\<lparr>task_state := success, task_name := ''AI App Removed''\<rparr>
               | Some err \<Rightarrow>
                   t\<lparr>task_error := Some ''error removing the pod. Please try to remove the pod manually'',
                      task_name := ''Error stopping AI App''\<rparr>"
    have n1: "c0 < task_id ?t1" using n by (simp split: option.splits)
    have "newerThan c0 K (updateTask ?t1 (record_call (RemovePod (pod_engineId appPod) (pod_Id appPod)) ?s3))"
      using i4 n1 by (rule newerThan_updateTask)
    then show ?thesis
      by (simp add: removeApplication_def st Inr ct Let_def)
  qed
qed

lemma newerThan_replacePod:
  assumes "newerThan c0 K s"
  shows "newerThan c0 K (snd (replacePod w recipe model images modelPath lbls s))"
proof (cases "hasApplicationPod w (recipe_id recipe) (model_id model) s")
  case (Inl e)
  then show ?thesis by (simp add: replacePod_def assms)
next
  case (Inr found)
  let ?rm = "if found then removeApplication w (recipe_id recipe) (model_id model) s else (Inr (), s)"
  obtain r s1 where rm: "?rm = (r, s1)" by (cases ?rm) auto
  have i1: "newerThan c0 K s1"
  proof (cases found)
    case True
    with rm have "s1 = snd (removeApplication w (recipe_id recipe) (model_id model) s)" by simp
    then show ?thesis using assms by (simp add: newerThan_removeApplication)
  next
    case False
    with rm assms show ?thesis by simp
  qed
  show ?thesis
    by (cases r) (simp_all add: replacePod_def Inr rm i1 newerThan_createApplicationPod)
qed

lemma newerThan_initApplication:
  assumes "newerThan c0 K s"
  shows "newerThan c0 K (snd (initApplication w recipe model lbls s))"
proof -
  let ?keyed = "withKeyLabels lbls (recipe_id recipe) (model_id model)"
  let ?folder = "path_join w [appUserDirectory w, recipe_id recipe]"
  obtain r1 s1 where cl: "cloneApplication w recipe (Some (AList.update ''model-id'' (model_id model) lbls)) s
                            = (r1, s1)"
    by (cases "cloneApplication w recipe (Some (AList.update ''model-id'' (model_id model) lbls)) s") auto
  have i1: "newerThan c0 K s1"
    using newerThan_cloneApplication [OF assms, of w recipe "Some (AList.update ''model-id'' (model_id model) lbls)"]
    by (simp add: cl)
  show ?thesis
  proof (cases r1)
    case (Inl e)
    then show ?thesis by (simp add: initApplication_def Let_def cl i1)
  next
    case c1: (Inr u1)
    obtain r2 s2 where cf: "getConfigAndFilterContainers w (basedir recipe) ?folder None s1 = (r2, s2)"
      by (cases "getConfigAndFilterContainers w (basedir recipe) ?folder None s1") auto
    have i2: "newerThan c0 K s2"
      using newerThan_getConfigAndFilterContainers [OF i1, of w "basedir recipe" ?folder None]
      by (simp add: cf)
    show ?thesis
    proof (cases r2)
      case (Inl e)
      then show ?thesis by (simp add: initApplication_def Let_def cl c1 cf i2)
    next
      case c2: (Inr cfg)
      let ?s3 = "record_call (RequestDownloadModel model ?keyed) s2"
      have i3: "newerThan c0 K ?s3" using i2 by (simp add: newerThan_record_call)
      show ?thesis
      proof (cases "requestDownloadModel w model ?keyed")
        case (Some e)
        then show ?thesis by (simp add: initApplication_def Let_def cl c1 cf c2 i3)
      next
        case None
        let ?s4 = "record_call (UploadModelToPodmanMachine model ?keyed) ?s3"
        have i4: "newerThan c0 K ?s4" using i3 by (simp add: newerThan_record_call)
        show ?thesis
        proof (cases "uploadModelToPodmanMachine w model ?keyed")
          case (Inl e)
          then show ?thesis by (simp add: initApplication_def Let_def cl c1 cf c2 None i4)
        next
          case c4: (Inr modelPath)
          let ?s5 = "record_call (Build recipe (containers cfg) (config_path (aiConfigFile cfg)) ?keyed) ?s4"
          have i5: "newerThan c0 K ?s5" using i4 by (simp add: newerThan_record_call)
          show ?thesis
          proof (cases "build w recipe (containers cfg) (config_path (aiConfigFile cfg)) ?keyed")
            case (Inl e)
            then show ?thesis by (simp add: initApplication_def Let_def cl c1 cf c2 None c4 i5)
          next
            case (Inr images)
            then show ?thesis
              by (simp add: initApplication_def Let_def cl c1 cf c2 None c4 newerThan_replacePod [OF i5])
          qed
        qed
      qed
    qed
  qed
qed

lemma newerThan_runApplication:
  assumes "newerThan c0 K s"
  shows "newerThan c0 K (snd (runApplication w podInfo lbls s))"
proof -
  obtain t s1 where ct: "createTask ''Starting AI App'' loading lbls s = (t, s1)"
    by (cases "createTask ''Starting AI App'' loading lbls s") auto
  from newerThan_createTask [OF assms ct]
  have i2: "newerThan c0 K (record_call (StartPod (pod_engineId podInfo) (pod_Id podInfo)) s1)"
    and n: "c0 < task_id t"
    by (simp_all add: newerThan_record_call)
  have i3: "newerThan c0 K (updateTask (t\<lparr>task_state := success, task_name := ''AI App is running''\<rparr>)
              (record_call (StartPod (pod_engineId podInfo) (pod_Id podInfo)) s1))"
    using i2 n by (simp add: newerThan_updateTask)
  show ?thesis
    by (simp add: runApplication_def ct Let_def i2 i3 newerThan_checkPodsHealth
          split: option.splits sum.splits)
qed

lemma newerThan_pullApplication:
  "newerThan (taskCounter s) (keyLabels (recipe_id recipe) (model_id model))
     (snd (pullApplication w recipe model lbls s))"
proof -
  let ?K = "keyLabels (recipe_id recipe) (model_id model)"
  let ?s0 = "deleteByLabels ?K s"
  have i0: "newerThan (taskCounter s) ?K ?s0"
    by (simp add: newerThan_def deleteByLabels_def)
  obtain r1 s1 where ini: "initApplication w recipe model lbls ?s0 = (r1, s1)"
    by (cases "initApplication w recipe model lbls ?s0") auto
  have i1: "newerThan (taskCounter s) ?K s1"
    using newerThan_initApplication [OF i0, of w recipe model lbls] by (simp add: ini)
  show ?thesis
  proof (cases r1)
    case (Inl e)
    then show ?thesis
      by (simp add: pullApplication_def Let_def ini newerThan_record_call i1)
  next
    case (Inr podInfo)
    obtain r2 s2 where run: "runApplication w podInfo
                               (Some (withKeyLabels lbls (recipe_id recipe) (model_id model))) s1 = (r2, s2)"
      by (cases "runApplication w podInfo
                   (Some (withKeyLabels lbls (recipe_id recipe) (model_id model))) s1") auto
    have i2: "newerThan (taskCounter s) ?K s2"
      using newerThan_runApplication [OF i1, of w podInfo
              "Some (withKeyLabels lbls (recipe_id recipe) (model_id model))"]
      by (simp add: run)
    show ?thesis
      by (cases r2) (simp_all add: pullApplication_def Let_def ini Inr run newerThan_record_call i2)
  qed
qed

lemma deleteByLabels_idem: "deleteByLabels K (deleteByLabels K s) = deleteByLabels K s"
  by (simp add: deleteByLabels_def)

lemma pullApplication_from_cleared:
  "pullApplication w recipe model lbls (deleteByLabels (keyLabels (recipe_id recipe) (model_id model)) s)
     = pullApplication w recipe model lbls s"
  by (simp add: pullApplication_def deleteByLabels_idem)

text \<open>The key labels are among the labels of the checkout task.\<close>

lemma checkout_labels_bear_key:
  "matchLabels (keyLabels recipeId modelId)
     (AList.update ''git'' ''checkout''
        (AList.update ''recipe-id'' recipeId (AList.update ''model-id'' modelId lbls)))"
  by (simp add: matchLabels_def keyLabels_def update_conv')

lemma update_absent_id:
  "\<forall>u\<in>set ts. task_id u \<noteq> n \<Longrightarrow> map (\<lambda>u. if task_id u = n then t else u) ts = ts"
  by (induction ts) auto

lemma pullApplication_checkout_fails:
  assumes "processCheckout w (cloneInfoOf w recipe) = Some err"
    and wf: "\<forall>t\<in>set (tasks s). task_id t \<le> taskCounter s"
  shows "pullApplication w recipe model lbls s
    = (Inl err,
       record_call (LogError ''recipe.pull'' err)
         (record_call (ProcessCheckout (cloneInfoOf w recipe))
            ((deleteByLabels (keyLabels (recipe_id recipe) (model_id model)) s)
               \<lparr>tasks := tasks (deleteByLabels (keyLabels (recipe_id recipe) (model_id model)) s)
                    @ [\<lparr>task_id = Suc (taskCounter s), task_name = ''Checking out repository'',
                         task_state = error, task_error = Some (String_of_error err),
                         task_labels = Some (AList.update ''git'' ''checkout''
                           (AList.update ''recipe-id'' (recipe_id recipe)
                              (AList.update ''model-id'' (model_id model) lbls)))\<rparr>],
                 taskCounter := Suc (taskCounter s)\<rparr>)))"
proof -
  let ?s0 = "deleteByLabels (keyLabels (recipe_id recipe) (model_id model)) s"
  let ?l = "AList.update ''recipe-id'' (recipe_id recipe) (AList.update ''model-id'' (model_id model) lbls)"
  have c0: "taskCounter ?s0 = taskCounter s" by (simp add: deleteByLabels_def)
  have "\<forall>u\<in>set (tasks ?s0). task_id u \<noteq> Suc (taskCounter s)"
    using wf by (auto simp: deleteByLabels_def)
  then have old: "map (\<lambda>u. if task_id u = Suc (taskCounter s) then t' else u) (tasks ?s0) = tasks ?s0" for t'
    by (rule update_absent_id)
  have d: "doCheckout w (cloneInfoOf w recipe) ?l ?s0
    = (Inl err,
       record_call (ProcessCheckout (cloneInfoOf w recipe))
         (?s0\<lparr>tasks := tasks ?s0
                    @ [\<lparr>task_id = Suc (taskCounter s), task_name = ''Checking out repository'',
                         task_state = error, task_error = Some (String_of_error err),
                         task_labels = Some (AList.update ''git'' ''checkout'' ?l)\<rparr>],
               taskCounter := Suc (taskCounter s)\<rparr>))"
    by (simp add: doCheckout_def createTask_def Let_def assms(1) updateTask_def record_call_def c0 old)
  have cl: "cloneApplication w recipe (Some (AList.update ''model-id'' (model_id model) lbls)) ?s0
    = (Inl err,
       record_call (ProcessCheckout (cloneInfoOf w recipe))
         (?s0\<lparr>tasks := tasks ?s0
                    @ [\<lparr>task_id = Suc (taskCounter s), task_name = ''Checking out repository'',
                         task_state = error, task_error = Some (String_of_error err),
                         task_labels = Some (AList.update ''git'' ''checkout'' ?l)\<rparr>],
               taskCounter := Suc (taskCounter s)\<rparr>))"
    using d by (simp add: cloneApplication_def Let_def cloneInfoOf_def)
  show ?thesis
    by (simp add: pullApplication_def initApplication_def Let_def cl)
qed

text \<open>
  What the clearing at the head of \<^verbatim>\<open>pullApplication\<close> gives, for a ledger whose ids
  were handed out by its counter. The ledger that the pipeline works from holds no task
  bearing the key's two labels and every other task as before, and no task has been
  created yet. Whether the pull succeeds or fails, every task that bears the key's labels
  afterwards was created by this pull, and none of the earlier tasks bearing them is
  left. When the repository checkout fails, the pull fails with the checkout's error and
  the only task bearing the key's labels is the new "Checking out repository" task, in
  state \<^verbatim>\<open>error\<close>.
\<close>

lemma pullApplication_key_tasks_are_new:
  assumes "K = keyLabels (recipe_id recipe) (model_id model)"
    and "pullApplication w recipe model lbls s = (r, s')"
    and "\<forall>t\<in>set (tasks s). task_id t \<le> taskCounter s"
  shows "(\<forall>t\<in>set (tasks (deleteByLabels K s)). \<not> taskBears K t)
    \<and> tasks (deleteByLabels K s) = filter (\<lambda>t. \<not> taskBears K t) (tasks s)
    \<and> taskCounter (deleteByLabels K s) = taskCounter s
    \<and> pullApplication w recipe model lbls (deleteByLabels K s) = (r, s')
    \<and> (\<forall>t\<in>set (tasks s'). taskBears K t \<longrightarrow> taskCounter s < task_id t)
    \<and> (\<forall>t\<in>set (tasks s). taskBears K t \<longrightarrow> t \<notin> set (tasks s'))
    \<and> (processCheckout w (cloneInfoOf w recipe) = Some err \<longrightarrow>
          r = Inl err
        \<and> filter (taskBears K) (tasks s')
            = [\<lparr>task_id = Suc (taskCounter s), task_name = ''Checking out repository'',
                 task_state = error, task_error = Some (String_of_error err),
                 task_labels = Some (AList.update ''git'' ''checkout''
                   (AList.update ''recipe-id'' (recipe_id recipe)
                      (AList.update ''model-id'' (model_id model) lbls)))\<rparr>])"
proof -
  have d: "tasks (deleteByLabels K s) = filter (\<lambda>t. \<not> taskBears K t) (tasks s)"
    "taskCounter (deleteByLabels K s) = taskCounter s"
    by (simp_all add: deleteByLabels_def)
  have none: "\<forall>t\<in>set (tasks (deleteByLabels K s)). \<not> taskBears K t"
    by (simp add: d)
  have same: "pullApplication w recipe model lbls (deleteByLabels K s) = (r, s')"
    using assms(1,2) by (simp add: pullApplication_from_cleared)
  have "newerThan (taskCounter s) K s'"
    using newerThan_pullApplication [of s recipe model w lbls] assms(1,2) by simp
  then have new: "\<forall>t\<in>set (tasks s'). taskBears K t \<longrightarrow> taskCounter s < task_id t"
    by (simp add: newerThan_def)
  have gone: "\<forall>t\<in>set (tasks s). taskBears K t \<longrightarrow> t \<notin> set (tasks s')"
  proof (intro ballI impI)
    fix t assume t: "t \<in> set (tasks s)" and b: "taskBears K t"
    from t assms(3) have "task_id t \<le> taskCounter s" by simp
    with new b show "t \<notin> set (tasks s')" by auto
  qed
  have fail: "processCheckout w (cloneInfoOf w recipe) = Some err \<Longrightarrow>
          r = Inl err
        \<and> filter (taskBears K) (tasks s')
            = [\<lparr>task_id = Suc (taskCounter s), task_name = ''Checking out repository'',
                 task_state = error, task_error = Some (String_of_error err),
                 task_labels = Some (AList.update ''git'' ''checkout''
                   (AList.update ''recipe-id'' (recipe_id recipe)
                      (AList.update ''model-id'' (model_id model) lbls)))\<rparr>]"
  proof -
    assume f: "processCheckout w (cloneInfoOf w recipe) = Some err"
    let ?t = "\<lparr>task_id = Suc (taskCounter s), task_name = ''Checking out repository'',
                 task_state = error, task_error = Some (String_of_error err),
                 task_labels = Some (AList.update ''git'' ''checkout''
                   (AList.update ''recipe-id'' (recipe_id recipe)
                      (AList.update ''model-id'' (model_id model) lbls)))\<rparr>"
    from pullApplication_checkout_fails [OF f assms(3), of model lbls] assms(2)
    have r: "r = Inl err" and ts: "tasks s' = tasks (deleteByLabels K s) @ [?t]"
      by (simp_all add: assms(1) record_call_def)
    have b: "taskBears K ?t"
      by (simp add: taskBears_def assms(1) checkout_labels_bear_key)
    have "filter (taskBears K) (tasks (deleteByLabels K s)) = []"
      by (simp add: d)
    with b have "filter (taskBears K) (tasks s') = [?t]"
      unfolding ts filter_append by simp
    with r show ?thesis by simp
  qed
  from d none same new gone fail show ?thesis by blast
qed

text \<open>
  A ledger that still holds the error task of an earlier failed pull of (r1, m1) and a task
  of another application; the pull of (r1, m1) fails again at the checkout.
\<close>

lemma pullApplication_key_tasks_are_new_example:
  "fst (pullApplication
          ((example_world [] (\<lambda>p. Inr none) Map.empty)\<lparr>processCheckout := \<lambda>g. Some (Error ''clone failed'')\<rparr>)
          recipe_r1 model_m1 []
          (manager_of [task_of 3 ''Checking out repository'' error (keyLabels ''r1'' ''m1''),
                       task_of 4 ''AI App is running'' success (keyLabels ''r2'' ''m2'')]))
     = Inl (Error ''clone failed'')
   \<and> filter (taskBears (keyLabels ''r1'' ''m1''))
        (tasks (snd (pullApplication
          ((example_world [] (\<lambda>p. Inr none) Map.empty)\<lparr>processCheckout := \<lambda>g. Some (Error ''clone failed'')\<rparr>)
          recipe_r1 model_m1 []
          (manager_of [task_of 3 ''Checking out repository'' error (keyLabels ''r1'' ''m1''),
                       task_of 4 ''AI App is running'' success (keyLabels ''r2'' ''m2'')]))))
     = [\<lparr>task_id = 5, task_name = ''Checking out repository'', task_state = error,
          task_error = Some ''Error: clone failed'',
          task_labels = Some [(''model-id'', ''m1''), (''recipe-id'', ''r1''), (''git'', ''checkout'')]\<rparr>]"
proof -
  let ?w = "(example_world [] (\<lambda>p. Inr none) Map.empty)\<lparr>processCheckout := \<lambda>g. Some (Error ''clone failed'')\<rparr>"
  let ?s = "manager_of [task_of 3 ''Checking out repository'' error (keyLabels ''r1'' ''m1''),
                        task_of 4 ''AI App is running'' success (keyLabels ''r2'' ''m2'')]"
  have k: "keyLabels ''r1'' ''m1'' = keyLabels (recipe_id recipe_r1) (model_id model_m1)"
    by (simp add: recipe_r1_def model_m1_def)
  have wf: "\<forall>t\<in>set (tasks ?s). task_id t \<le> taskCounter ?s"
    by (simp add: manager_of_def task_of_def)
  have f: "processCheckout ?w (cloneInfoOf ?w recipe_r1) = Some (Error ''clone failed'')"
    by simp
  have c: "Suc (taskCounter ?s) = 5"
    by (simp add: manager_of_def task_of_def)
  have l: "AList.update ''git'' ''checkout''
             (AList.update ''recipe-id'' (recipe_id recipe_r1)
                (AList.update ''model-id'' (model_id model_m1) []))
             = [(''model-id'', ''m1''), (''recipe-id'', ''r1''), (''git'', ''checkout'')]"
    by (simp add: recipe_r1_def model_m1_def)
  note T = pullApplication_key_tasks_are_new [OF k prod.collapse [symmetric] wf,
             where w = ?w and lbls = "[]" and err = "Error ''clone failed''"]
  have "fst (pullApplication ?w recipe_r1 model_m1 [] ?s) = Inl (Error ''clone failed'')
      \<and> filter (taskBears (keyLabels ''r1'' ''m1'')) (tasks (snd (pullApplication ?w recipe_r1 model_m1 [] ?s)))
          = [\<lparr>task_id = Suc (taskCounter ?s), task_name = ''Checking out repository'',
               task_state = error, task_error = Some (String_of_error (Error ''clone failed'')),
               task_labels = Some (AList.update ''git'' ''checkout''
                 (AList.update ''recipe-id'' (recipe_id recipe_r1)
                    (AList.update ''model-id'' (model_id model_m1) [])))\<rparr>]"
    by (rule mp [OF conjunct2 [OF conjunct2 [OF conjunct2 [OF conjunct2 [OF conjunct2 [OF conjunct2 [OF T]]]]]] f])
  then show ?thesis
    unfolding c l by simp
qed

text \<open>
  A pull whose checkout succeeds and whose configuration cannot be loaded: it fails with
  the configuration error, and to the cleared ledger it has added the checkout task and an
  unlabelled "Loading configuration" task that carries the error message.
\<close>

lemma doCheckout_succeeds:
  assumes "processCheckout w g = None"
    and "\<forall>t\<in>set (tasks s). task_id t \<le> taskCounter s"
  shows "fst (doCheckout w g l s) = Inr ()
    \<and> tasks (snd (doCheckout w g l s))
        = tasks s @ [\<lparr>task_id = Suc (taskCounter s), task_name = ''Checking out repository'',
                       task_state = success, task_error = None,
                       task_labels = Some (AList.update ''git'' ''checkout'' l)\<rparr>]
    \<and> taskCounter (snd (doCheckout w g l s)) = Suc (taskCounter s)"
proof -
  have "\<forall>u\<in>set (tasks s). task_id u \<noteq> Suc (taskCounter s)"
    using assms(2) by auto
  then have old: "map (\<lambda>u. if task_id u = Suc (taskCounter s) then t' else u) (tasks s) = tasks s" for t'
    by (rule update_absent_id)
  show ?thesis
    by (simp add: doCheckout_def createTask_def Let_def assms(1) updateTask_def record_call_def old)
qed

lemma cloneApplication_succeeds:
  assumes "processCheckout w (cloneInfoOf w recipe) = None"
    and "\<forall>t\<in>set (tasks s). task_id t \<le> taskCounter s"
  shows "fst (cloneApplication w recipe (Some l) s) = Inr ()
    \<and> tasks (snd (cloneApplication w recipe (Some l) s))
        = tasks s @ [\<lparr>task_id = Suc (taskCounter s), task_name = ''Checking out repository'',
                       task_state = success, task_error = None,
                       task_labels = Some (AList.update ''git'' ''checkout''
                                             (AList.update ''recipe-id'' (recipe_id recipe) l))\<rparr>]
    \<and> taskCounter (snd (cloneApplication w recipe (Some l) s)) = Suc (taskCounter s)"
proof -
  let ?d = "doCheckout w (cloneInfoOf w recipe) (AList.update ''recipe-id'' (recipe_id recipe) l) s"
  note d = doCheckout_succeeds [OF assms, of "AList.update ''recipe-id'' (recipe_id recipe) l"]
  obtain r s1 where e: "?d = (r, s1)" by (cases ?d) auto
  with d have r: "r = Inr ()"
    and t: "tasks s1 = tasks s @ [\<lparr>task_id = Suc (taskCounter s), task_name = ''Checking out repository'',
                       task_state = success, task_error = None,
                       task_labels = Some (AList.update ''git'' ''checkout''
                                             (AList.update ''recipe-id'' (recipe_id recipe) l))\<rparr>]"
    and c: "taskCounter s1 = Suc (taskCounter s)"
    by simp_all
  have e': "doCheckout w \<lparr>git_repository = repository recipe, git_ref = ref recipe,
                            targetDirectory = path_join w [appUserDirectory w, recipe_id recipe]\<rparr>
              (AList.update ''recipe-id'' (recipe_id recipe) l) s = (Inr (), s1)"
    using e r by (simp add: cloneInfoOf_def)
  show ?thesis
    by (simp add: cloneApplication_def Let_def e' record_call_def t c)
qed

lemma getConfigAndFilterContainers_fails:
  assumes "getConfiguration w b folder = Inl e"
    and "\<forall>t\<in>set (tasks s). task_id t \<le> taskCounter s"
  shows "fst (getConfigAndFilterContainers w b folder lbls s) = Inl e
    \<and> tasks (snd (getConfigAndFilterContainers w b folder lbls s))
        = tasks s @ [\<lparr>task_id = Suc (taskCounter s), task_name = ''Loading configuration'',
                       task_state = loading,
                       task_error = Some (''Something went wrong while loading configuration: ''
                                            @ String_of_error e @ ''.''),
                       task_labels = lbls\<rparr>]
    \<and> taskCounter (snd (getConfigAndFilterContainers w b folder lbls s)) = Suc (taskCounter s)"
proof -
  have "\<forall>u\<in>set (tasks s). task_id u \<noteq> Suc (taskCounter s)"
    using assms(2) by auto
  then have old: "map (\<lambda>u. if task_id u = Suc (taskCounter s) then t' else u) (tasks s) = tasks s" for t'
    by (rule update_absent_id)
  show ?thesis
    by (simp add: getConfigAndFilterContainers_def createTask_def Let_def assms(1) updateTask_def old)
qed

lemma pullApplication_config_fails:
  assumes co: "processCheckout w (cloneInfoOf w recipe) = None"
    and cf: "getConfiguration w (basedir recipe) (path_join w [appUserDirectory w, recipe_id recipe]) = Inl e"
    and wf: "\<forall>t\<in>set (tasks s). task_id t \<le> taskCounter s"
  shows "fst (pullApplication w recipe model lbls s) = Inl e
    \<and> tasks (snd (pullApplication w recipe model lbls s))
        = filter (\<lambda>t. \<not> taskBears (keyLabels (recipe_id recipe) (model_id model)) t) (tasks s)
          @ [\<lparr>task_id = Suc (taskCounter s), task_name = ''Checking out repository'',
               task_state = success, task_error = None,
               task_labels = Some (AList.update ''git'' ''checkout''
                 (AList.update ''recipe-id'' (recipe_id recipe)
                    (AList.update ''model-id'' (model_id model) lbls)))\<rparr>,
             \<lparr>task_id = Suc (Suc (taskCounter s)), task_name = ''Loading configuration'',
               task_state = loading,
               task_error = Some (''Something went wrong while loading configuration: ''
                                    @ String_of_error e @ ''.''),
               task_labels = None\<rparr>]
    \<and> taskCounter (snd (pullApplication w recipe model lbls s)) = Suc (Suc (taskCounter s))"
proof -
  let ?s0 = "deleteByLabels (keyLabels (recipe_id recipe) (model_id model)) s"
  let ?l = "AList.update ''model-id'' (model_id model) lbls"
  let ?folder = "path_join w [appUserDirectory w, recipe_id recipe]"
  have t0: "tasks ?s0 = filter (\<lambda>t. \<not> taskBears (keyLabels (recipe_id recipe) (model_id model)) t) (tasks s)"
    and c0: "taskCounter ?s0 = taskCounter s"
    by (simp_all add: deleteByLabels_def)
  have wf0: "\<forall>t\<in>set (tasks ?s0). task_id t \<le> taskCounter ?s0"
    using wf by (simp add: t0 c0)
  obtain r1 s1 where cl: "cloneApplication w recipe (Some ?l) ?s0 = (r1, s1)"
    by (cases "cloneApplication w recipe (Some ?l) ?s0") auto
  from cloneApplication_succeeds [OF co wf0, of ?l] cl
  have r1: "r1 = Inr ()"
    and t1: "tasks s1 = tasks ?s0 @ [\<lparr>task_id = Suc (taskCounter s), task_name = ''Checking out repository'',
               task_state = success, task_error = None,
               task_labels = Some (AList.update ''git'' ''checkout''
                 (AList.update ''recipe-id'' (recipe_id recipe) ?l))\<rparr>]"
    and c1: "taskCounter s1 = Suc (taskCounter s)"
    by (simp_all add: c0)
  have wf1: "\<forall>t\<in>set (tasks s1). task_id t \<le> taskCounter s1"
    using wf0 by (auto simp: t1 c1 c0)
  obtain r2 s2 where g: "getConfigAndFilterContainers w (basedir recipe) ?folder None s1 = (r2, s2)"
    by (cases "getConfigAndFilterContainers w (basedir recipe) ?folder None s1") auto
  from getConfigAndFilterContainers_fails [OF cf wf1, of None] g
  have r2: "r2 = Inl e"
    and t2: "tasks s2 = tasks s1 @ [\<lparr>task_id = Suc (Suc (taskCounter s)), task_name = ''Loading configuration'',
               task_state = loading,
               task_error = Some (''Something went wrong while loading configuration: ''
                                    @ String_of_error e @ ''.''),
               task_labels = None\<rparr>]"
    and c2: "taskCounter s2 = Suc (Suc (taskCounter s))"
    by (simp_all add: c1)
  have ini: "initApplication w recipe model lbls ?s0 = (Inl e, s2)"
    by (simp add: initApplication_def Let_def cl r1 g r2)
  show ?thesis
    by (simp add: pullApplication_def Let_def ini record_call_def t2 t1 t0 c2)
qed

text \<open>
  C8 fails on the code. A recipe whose configuration file is missing is pulled twice from
  an empty ledger. The first pull fails and leaves the checkout task, which bears the
  key's labels, and a "Loading configuration" task that carries the error and no label at
  all, since \<^verbatim>\<open>initApplication\<close> hands no labels to
  \<^verbatim>\<open>getConfigAndFilterContainers\<close>. The second pull clears by the key's labels: the old
  checkout task goes, the old "Loading configuration" task stays, and after the second
  failure the ledger holds it twice, once from each pull. And a pull step that fails while
  starting the pod throws with its "Starting AI App" task left in state \<^verbatim>\<open>loading\<close>,
  so that failure leaves no task in state \<^verbatim>\<open>error\<close> for the key.
\<close>

theorem pullApplication_failure_leaves_stale_task:
  "fst (pullApplication world_no_config recipe_r1 model_m1 [] (manager_of []))
     = Inl (Error ''The file located at /home/user/ai-lab/r1/ai-lab.yaml does not exist.'')
   \<and> tasks (snd (pullApplication world_no_config recipe_r1 model_m1 [] (manager_of [])))
     = [checkout_task 1, config_task 2]
   \<and> fst (pullApplication world_no_config recipe_r1 model_m1 []
            (snd (pullApplication world_no_config recipe_r1 model_m1 [] (manager_of []))))
     = Inl (Error ''The file located at /home/user/ai-lab/r1/ai-lab.yaml does not exist.'')
   \<and> tasks (snd (pullApplication world_no_config recipe_r1 model_m1 []
            (snd (pullApplication world_no_config recipe_r1 model_m1 [] (manager_of [])))))
     = [config_task 2, checkout_task 3, config_task 4]
   \<and> taskBears (keyLabels ''r1'' ''m1'') (checkout_task 1)
   \<and> \<not> taskBears (keyLabels ''r1'' ''m1'') (config_task 2)
   \<and> runApplication world_start_rejected pod_r1m1 (Some (keyLabels ''r1'' ''m1'')) (manager_of [])
     = (Inl (Error ''cannot start''),
        (manager_of [])\<lparr>tasks := [task_of 1 ''Starting AI App'' loading (keyLabels ''r1'' ''m1'')],
                         taskCounter := 1,
                         calls := [StartPod ''podman'' ''pod1'']\<rparr>)"
proof -
  let ?e = "Error ''The file located at /home/user/ai-lab/r1/ai-lab.yaml does not exist.''"
  let ?p1 = "pullApplication world_no_config recipe_r1 model_m1 [] (manager_of [])"
  let ?p2 = "pullApplication world_no_config recipe_r1 model_m1 [] (snd ?p1)"
  have co: "processCheckout world_no_config (cloneInfoOf world_no_config recipe_r1) = None"
    by (simp add: world_no_config_def example_world_def)
  have cf: "getConfiguration world_no_config (basedir recipe_r1)
              (path_join world_no_config [appUserDirectory world_no_config, recipe_id recipe_r1]) = Inl ?e"
    by (simp add: getConfiguration_def world_no_config_def example_world_def recipe_r1_def
          CONFIG_FILENAME_def Let_def)
  have ids: "recipe_id recipe_r1 = ''r1''" "model_id model_m1 = ''m1''"
    by (simp_all add: recipe_r1_def model_m1_def)
  have lbl: "AList.update ''git'' ''checkout''
               (AList.update ''recipe-id'' ''r1'' (AList.update ''model-id'' ''m1'' []))
             = [(''model-id'', ''m1''), (''recipe-id'', ''r1''), (''git'', ''checkout'')]"
    by simp
  have b1: "taskBears (keyLabels ''r1'' ''m1'') (checkout_task n)" for n
    by (simp add: taskBears_def matchLabels_def keyLabels_def checkout_task_def)
  have b2: "\<not> taskBears (keyLabels ''r1'' ''m1'') (config_task n)" for n
    by (simp add: taskBears_def config_task_def)
  have s0: "tasks (manager_of []) = []" "taskCounter (manager_of []) = 0"
    by (simp_all add: manager_of_def)
  have wf0: "\<forall>t\<in>set (tasks (manager_of [])). task_id t \<le> taskCounter (manager_of [])"
    by (simp add: s0)
  note P1 = pullApplication_config_fails [OF co cf wf0, of model_m1 "[]"]
  have r1: "fst ?p1 = Inl ?e" using P1 by simp
  have t1: "tasks (snd ?p1) = [checkout_task (Suc 0), config_task (Suc (Suc 0))]"
    using P1 by (simp add: s0 ids lbl checkout_task_def config_task_def)
  have c1: "taskCounter (snd ?p1) = Suc (Suc 0)"
    using P1 by (simp add: s0)
  have wf1: "\<forall>t\<in>set (tasks (snd ?p1)). task_id t \<le> taskCounter (snd ?p1)"
    by (simp add: t1 c1 checkout_task_def config_task_def)
  note P2 = pullApplication_config_fails [OF co cf wf1, of model_m1 "[]"]
  have r2: "fst ?p2 = Inl ?e" using P2 by simp
  have "tasks (snd ?p2)
          = filter (\<lambda>t. \<not> taskBears (keyLabels ''r1'' ''m1'') t)
              [checkout_task (Suc 0), config_task (Suc (Suc 0))]
            @ [checkout_task (Suc (Suc (Suc 0))), config_task (Suc (Suc (Suc (Suc 0))))]"
    using P2 unfolding t1 c1 ids lbl by (simp add: checkout_task_def config_task_def)
  then have t2: "tasks (snd ?p2)
          = [config_task (Suc (Suc 0)), checkout_task (Suc (Suc (Suc 0))),
             config_task (Suc (Suc (Suc (Suc 0))))]"
    by (simp add: b1 b2)
  have n: "(1::nat) = Suc 0" "(2::nat) = Suc (Suc 0)" "(3::nat) = Suc (Suc (Suc 0))"
    "(4::nat) = Suc (Suc (Suc (Suc 0)))"
    by simp_all
  have run: "runApplication world_start_rejected pod_r1m1 (Some (keyLabels ''r1'' ''m1'')) (manager_of [])
     = (Inl (Error ''cannot start''),
        (manager_of [])\<lparr>tasks := [task_of 1 ''Starting AI App'' loading (keyLabels ''r1'' ''m1'')],
                         taskCounter := 1,
                         calls := [StartPod ''podman'' ''pod1'']\<rparr>)"
    by (simp add: runApplication_def createTask_def Let_def record_call_def world_start_rejected_def
          example_world_def example_engine_def manager_of_def task_of_def pod_r1m1_def pod_of_def)
  show ?thesis
    unfolding n using r1 t1 r2 t2 b1 b2 run [unfolded n] by (intro conjI)
qed

subsection \<open>The existing-pod check of the pull\<close>

lemma removals_append: "removals (xs @ ys) = removals xs @ removals ys"
  by (induction xs rule: removals.induct) simp_all

lemma removals_containers: "removals (map (CreateContainerInPod engineId \<circ> f) xs) = []"
  by (induction xs) simp_all

lemma createPod_removals:
  "removals (calls (snd (createPod w recipe model images s))) = removals (calls s)"
  by (simp add: createPod_def Let_def record_call_def removals_append
        split: option.splits sum.splits prod.splits)

lemma updateTask_calls: "calls (updateTask t s) = calls s"
  by (simp add: updateTask_def)

lemma createTask_calls: "createTask n st l s = (t, s1) \<Longrightarrow> calls s1 = calls s"
  by (auto simp: createTask_def Let_def)

lemma createApplicationPod_removals:
  "removals (calls (snd (createApplicationPod w recipe model images modelPath lbls s)))
     = removals (calls s)"
proof -
  obtain t s1 where ct: "createTask ''Creating AI App'' loading lbls s = (t, s1)"
    by (cases "createTask ''Creating AI App'' loading lbls s") auto
  have c1: "calls s1 = calls s" using ct by (rule createTask_calls)
  obtain r s2 where cp: "createPod w recipe model images s1 = (r, s2)"
    by (cases "createPod w recipe model images s1") auto
  have c2: "removals (calls s2) = removals (calls s)"
    using createPod_removals [of w recipe model images s1] by (simp add: cp c1)
  show ?thesis
  proof (cases r)
    case (Inl e)
    then show ?thesis
      by (simp add: createApplicationPod_def ct cp updateTask_calls c2)
  next
    case (Inr podInfo)
    let ?t1 = "t\<lparr>task_labels := Some (AList.update ''pod-id'' (pod_Id podInfo)
                                      (case task_labels t of None \<Rightarrow> [] | Some l \<Rightarrow> l))\<rparr>"
    obtain r4 s4 where at: "createContainerAndAttachToPod w podInfo images model modelPath (updateTask ?t1 s2)
                              = (r4, s4)"
      by (cases "createContainerAndAttachToPod w podInfo images model modelPath (updateTask ?t1 s2)") auto
    have "calls s4 = calls (updateTask ?t1 s2)
            @ map (CreateContainerInPod (pod_engineId podInfo))
                  (map (containerOptions w podInfo images model modelPath) images)"
      using attachAll_calls [of w "pod_engineId podInfo"
              "map (containerOptions w podInfo images model modelPath) images" "updateTask ?t1 s2"]
      by (simp add: createContainerAndAttachToPod_def [symmetric] at)
    then have c4: "removals (calls s4) = removals (calls s)"
      by (simp add: removals_append removals_containers updateTask_calls c2)
    show ?thesis
      by (cases r4) (simp_all add: createApplicationPod_def ct cp Inr Let_def at updateTask_calls c4)
  qed
qed

text \<open>
  C1 fails on the code. The engine holds the pod of (r1, m1), labelled as \<^verbatim>\<open>createPod\<close>
  labels it, and \<^verbatim>\<open>findPod\<close> finds it. \<^verbatim>\<open>hasApplicationPod\<close> asks for the labels
  named \<^verbatim>\<open>LABEL_RECIPE_ID\<close> and \<^verbatim>\<open>LABEL_MODEL_ID\<close>, not for the labels those constants
  name, and answers that there is no pod. The pull then goes straight to creating the new
  pod: it is the run of \<^verbatim>\<open>createApplicationPod\<close> from the same state, and its record of
  calls holds no stop and no removal of a pod.
\<close>

theorem hasApplicationPod_misses_labelled_pod:
  "findPod (example_world [pod_r1m1] (\<lambda>p. Inr healthy) Map.empty) ''r1'' ''m1'' (manager_of [])
     = Inr (Some pod_r1m1)
   \<and> hasApplicationPod (example_world [pod_r1m1] (\<lambda>p. Inr healthy) Map.empty) ''r1'' ''m1'' (manager_of [])
     = Inr False
   \<and> replacePod (example_world [pod_r1m1] (\<lambda>p. Inr healthy) Map.empty) recipe_r1 model_m1
        [image_model, image_app] ''/home/user/models/model.gguf'' [] (manager_of [])
     = createApplicationPod (example_world [pod_r1m1] (\<lambda>p. Inr healthy) Map.empty) recipe_r1 model_m1
        [image_model, image_app] ''/home/user/models/model.gguf''
        (Some (withKeyLabels [] ''r1'' ''m1'')) (manager_of [])
   \<and> removals (calls (snd (replacePod (example_world [pod_r1m1] (\<lambda>p. Inr healthy) Map.empty)
        recipe_r1 model_m1 [image_model, image_app] ''/home/user/models/model.gguf'' [] (manager_of []))))
     = []"
proof -
  let ?w = "example_world [pod_r1m1] (\<lambda>p. Inr healthy) Map.empty"
  have pods: "getAllPods (engine ?w) (calls (manager_of [])) = Inr [pod_r1m1]"
    by (simp add: example_world_def example_engine_def)
  have f1: "findPodByLabelsValues [(LABEL_RECIPE_ID, ''r1''), (LABEL_MODEL_ID, ''m1'')] [pod_r1m1]
              = Some pod_r1m1"
    by (simp add: findPodByLabelsValues_def matchLabels_def pod_r1m1_def pod_of_def
          LABEL_RECIPE_ID_def LABEL_MODEL_ID_def)
  have f2: "findPodByLabelsValues [(''LABEL_RECIPE_ID'', ''r1''), (''LABEL_MODEL_ID'', ''m1'')] [pod_r1m1]
              = None"
    by (simp add: findPodByLabelsValues_def matchLabels_def pod_r1m1_def pod_of_def)
  have a: "findPod ?w ''r1'' ''m1'' (manager_of []) = Inr (Some pod_r1m1)"
    unfolding findPod_def pods by (simp add: f1)
  have b: "hasApplicationPod ?w ''r1'' ''m1'' (manager_of []) = Inr False"
    unfolding hasApplicationPod_def pods by (simp add: f2)
  have ids: "recipe_id recipe_r1 = ''r1''" "model_id model_m1 = ''m1''"
    by (simp_all add: recipe_r1_def model_m1_def)
  have c: "replacePod ?w recipe_r1 model_m1 [image_model, image_app] ''/home/user/models/model.gguf'' []
             (manager_of [])
           = createApplicationPod ?w recipe_r1 model_m1 [image_model, image_app]
               ''/home/user/models/model.gguf'' (Some (withKeyLabels [] ''r1'' ''m1'')) (manager_of [])"
    by (simp add: replacePod_def ids b)
  have "removals (calls (snd (createApplicationPod ?w recipe_r1 model_m1 [image_model, image_app]
               ''/home/user/models/model.gguf'' (Some (withKeyLabels [] ''r1'' ''m1'')) (manager_of []))))
          = removals (calls (manager_of []))"
    by (rule createApplicationPod_removals)
  moreover have "calls (manager_of []) = []"
    by (simp add: manager_of_def)
  ultimately have d: "removals (calls (snd (replacePod ?w recipe_r1 model_m1 [image_model, image_app]
                  ''/home/user/models/model.gguf'' [] (manager_of [])))) = []"
    unfolding c by simp
  from a b c d show ?thesis by (intro conjI)
qed

end
